theory Spec2Isabelle
  imports Main
begin

section \<open>JavaScript values and string operations\<close>

text \<open>
  Strings are lists of characters. \<open>String.prototype.toLowerCase\<close> maps every cased
  letter of Unicode; it is not computed here but is a parameter of the handlers (the field
  \<open>toLowerCase\<close> of the environment below), so what is proved holds whatever it maps.
  \<open>ascii_toLowerCase\<close> is what it computes on a string of ASCII characters, for the
  scenarios, whose names are all ASCII.
\<close>

definition toLowerChar :: "char \<Rightarrow> char" where
  "toLowerChar c =
     (case map_of (zip ''ABCDEFGHIJKLMNOPQRSTUVWXYZ'' ''abcdefghijklmnopqrstuvwxyz'') c of
        None \<Rightarrow> c
      | Some d \<Rightarrow> d)"

definition ascii_toLowerCase :: "string \<Rightarrow> string" where
  "ascii_toLowerCase s = map toLowerChar s"

text \<open>\<open>s.startsWith(t)\<close> and \<open>s.includes(t)\<close>.\<close>

fun startsWith :: "string \<Rightarrow> string \<Rightarrow> bool" where
  "startsWith s [] = True"
| "startsWith [] (d # t) = False"
| "startsWith (c # s) (d # t) = (c = d \<and> startsWith s t)"

fun str_includes :: "string \<Rightarrow> string \<Rightarrow> bool" where
  "str_includes [] t = (t = [])"
| "str_includes (c # s) t = (startsWith (c # s) t \<or> str_includes s t)"

text \<open>\<open>xs.join(sep)\<close> on an array of strings.\<close>

fun join :: "string \<Rightarrow> string list \<Rightarrow> string" where
  "join sep [] = []"
| "join sep [x] = x"
| "join sep (x # y # ys) = x @ sep @ join sep (y # ys)"

text \<open>Decimal rendering of an integer, as a template literal renders a whole number.\<close>

definition digit :: "nat \<Rightarrow> char" where
  "digit d = ''0123456789'' ! d"

fun show_nat :: "nat \<Rightarrow> string" where
  "show_nat n = (if n < 10 then [digit n] else show_nat (n div 10) @ [digit (n mod 10)])"

declare show_nat.simps [simp del]

definition show_int :: "int \<Rightarrow> string" where
  "show_int i = (if i < 0 then CHR ''-'' # show_nat (nat (- i)) else show_nat (nat i))"

text \<open>
  A JSON value as a tool call carries it, with \<open>JUndefined\<close> for what JavaScript reads
  from a property that is not there. Numbers are the whole numbers (limits, issue and
  project numbers); an object is the list of its properties in order.
\<close>

datatype json =
    JUndefined
  | JNull
  | JBool bool
  | JNumber int
  | JString string
  | JArray "json list"
  | JObject "(string \<times> json) list"

text \<open>\<open>obj[key]\<close>: the property, or \<open>undefined\<close>.\<close>

definition property :: "(string \<times> json) list \<Rightarrow> string \<Rightarrow> json" where
  "property obj k = (case map_of obj k of None \<Rightarrow> JUndefined | Some v \<Rightarrow> v)"

text \<open>\<open>String(v)\<close>, which is also how a template literal renders \<open>${v}\<close>.\<close>

fun js_String :: "json \<Rightarrow> string" where
  "js_String JUndefined = ''undefined''"
| "js_String JNull = ''null''"
| "js_String (JBool b) = (if b then ''true'' else ''false'')"
| "js_String (JNumber n) = show_int n"
| "js_String (JString s) = s"
| "js_String (JArray xs) =
     join '','' (map (\<lambda>x. if x = JNull \<or> x = JUndefined then [] else js_String x) xs)"
| "js_String (JObject kvs) = ''[object Object]''"

text \<open>The truthiness of a value: \<open>!v\<close> is \<open>\<not> truthy v\<close>.\<close>

fun truthy :: "json \<Rightarrow> bool" where
  "truthy JUndefined = False"
| "truthy JNull = False"
| "truthy (JBool b) = b"
| "truthy (JNumber n) = (n \<noteq> 0)"
| "truthy (JString s) = (s \<noteq> [])"
| "truthy (JArray xs) = True"
| "truthy (JObject kvs) = True"

text \<open>An optional string of a response, read as a value: absent is \<open>undefined\<close>.\<close>

definition opt_json :: "string option \<Rightarrow> json" where
  "opt_json x = (case x of None \<Rightarrow> JUndefined | Some s \<Rightarrow> JString s)"

text \<open>Characters that a string literal cannot hold, and the bullet of the listings.\<close>

definition nl :: string where "nl = [CHR 0x0A]"
definition quote :: string where "quote = [CHR 0x27]"
definition dquote :: string where "dquote = [CHR 0x22]"
definition backtick :: string where "backtick = [CHR 0x60]"
definition bullet :: string where "bullet = [CHR 0xE2, CHR 0x80, CHR 0xA2]"

section \<open>Input validation: the zod schemas\<close>

text \<open>
  index.ts validates tool arguments with the zod library (version 3, whose \<open>ZodError\<close>
  has the \<open>errors\<close> list that the dispatcher reads). The library is a dependency, not
  part of the repository; what follows is its behaviour on the schema constructors that
  index.ts uses: \<open>z.string()\<close>, \<open>z.number()\<close>, \<open>z.enum\<close>, \<open>z.array\<close>, \<open>.optional()\<close>,
  \<open>.default(v)\<close> and \<open>z.object\<close>. An object schema checks every key of its shape, in the
  order of the shape, and collects the issues of all of them; each issue has the path of
  the value it is about and the message of zod's default error map.
\<close>

datatype zkey = Key string | Index nat

record ZodIssue =
  code :: string
  path :: "zkey list"
  message :: string

datatype ZodType =
    ZString
  | ZNumber
  | ZEnum "string list"
  | ZArray ZodType
  | ZOptional ZodType
  | ZDefault ZodType json

fun getParsedType :: "json \<Rightarrow> string" where
  "getParsedType JUndefined = ''undefined''"
| "getParsedType JNull = ''null''"
| "getParsedType (JBool b) = ''boolean''"
| "getParsedType (JNumber n) = ''number''"
| "getParsedType (JString s) = ''string''"
| "getParsedType (JArray xs) = ''array''"
| "getParsedType (JObject kvs) = ''object''"

definition joinValues :: "string list \<Rightarrow> string" where
  "joinValues opts = join '' | '' (map (\<lambda>v. quote @ v @ quote) opts)"

definition invalid_type :: "zkey list \<Rightarrow> string \<Rightarrow> json \<Rightarrow> ZodIssue" where
  "invalid_type p expected v =
     \<lparr>code = ''invalid_type'', path = p,
      message = (if v = JUndefined then ''Required''
                 else ''Expected '' @ expected @ '', received '' @ getParsedType v)\<rparr>"

definition invalid_enum_value :: "zkey list \<Rightarrow> string list \<Rightarrow> string \<Rightarrow> ZodIssue" where
  "invalid_enum_value p opts s =
     \<lparr>code = ''invalid_enum_value'', path = p,
      message = ''Invalid enum value. Expected '' @ joinValues opts @ '', received ''
                @ quote @ s @ quote\<rparr>"

fun zissues :: "ZodType \<Rightarrow> zkey list \<Rightarrow> json \<Rightarrow> ZodIssue list" where
  "zissues ZString p v = (case v of JString s \<Rightarrow> [] | _ \<Rightarrow> [invalid_type p ''string'' v])"
| "zissues ZNumber p v = (case v of JNumber n \<Rightarrow> [] | _ \<Rightarrow> [invalid_type p ''number'' v])"
| "zissues (ZEnum opts) p v =
     (case v of
        JString s \<Rightarrow> if s \<in> set opts then [] else [invalid_enum_value p opts s]
      | _ \<Rightarrow> [invalid_type p (joinValues opts) v])"
| "zissues (ZArray t) p v =
     (case v of
        JArray xs \<Rightarrow> concat (map (\<lambda>(i, x). zissues t (p @ [Index i]) x) (enumerate 0 xs))
      | _ \<Rightarrow> [invalid_type p ''array'' v])"
| "zissues (ZOptional t) p v = (if v = JUndefined then [] else zissues t p v)"
| "zissues (ZDefault t d) p v = zissues t p (if v = JUndefined then d else v)"

text \<open>The value a schema hands back for an input it accepts.\<close>

fun zoutput :: "ZodType \<Rightarrow> json \<Rightarrow> json" where
  "zoutput (ZOptional t) v = (if v = JUndefined then JUndefined else zoutput t v)"
| "zoutput (ZDefault t d) v = zoutput t (if v = JUndefined then d else v)"
| "zoutput (ZArray t) v = (case v of JArray xs \<Rightarrow> JArray (map (zoutput t) xs) | _ \<Rightarrow> v)"
| "zoutput t v = v"

type_synonym ZodObject = "(string \<times> ZodType) list"

definition object_issues :: "ZodObject \<Rightarrow> json \<Rightarrow> ZodIssue list" where
  "object_issues shape args =
     (case args of
        JObject kvs \<Rightarrow> concat (map (\<lambda>(k, t). zissues t [Key k] (property kvs k)) shape)
      | _ \<Rightarrow> [invalid_type [] ''object'' args])"

text \<open>
  \<open>Schema.parse(args)\<close>: the issues (what \<open>ZodError.errors\<close> holds) when there is one,
  the parsed object otherwise, with one property for each key of the shape (\<open>undefined\<close>
  for an optional key that is absent).
\<close>

definition parse :: "ZodObject \<Rightarrow> json \<Rightarrow> ZodIssue list + (string \<times> json) list" where
  "parse shape args =
     (case object_issues shape args of
        [] \<Rightarrow> Inr (case args of
                    JObject kvs \<Rightarrow> map (\<lambda>(k, t). (k, zoutput t (property kvs k))) shape
                  | _ \<Rightarrow> [])
      | i # is \<Rightarrow> Inl (i # is))"

definition field_types :: "string list" where
  "field_types = [''TEXT'', ''NUMBER'', ''DATE'', ''SINGLE_SELECT'', ''ITERATION'']"

definition CreateProjectSchema :: ZodObject where
  "CreateProjectSchema =
     [(''title'', ZString),
      (''description'', ZOptional ZString),
      (''owner'', ZString),
      (''visibility'', ZDefault (ZEnum [''PUBLIC'', ''PRIVATE'']) (JString ''PRIVATE''))]"

definition GetProjectSchema :: ZodObject where
  "GetProjectSchema = [(''projectId'', ZString)]"

definition UpdateProjectSchema :: ZodObject where
  "UpdateProjectSchema =
     [(''projectId'', ZString),
      (''title'', ZOptional ZString),
      (''description'', ZOptional ZString),
      (''visibility'', ZOptional (ZEnum [''PUBLIC'', ''PRIVATE'']))]"

definition CreateIssueSchema :: ZodObject where
  "CreateIssueSchema =
     [(''owner'', ZString),
      (''repo'', ZString),
      (''title'', ZString),
      (''body'', ZOptional ZString),
      (''projectId'', ZOptional ZString)]"

definition AddItemToProjectSchema :: ZodObject where
  "AddItemToProjectSchema = [(''projectId'', ZString), (''contentId'', ZString)]"

definition UpdateProjectItemSchema :: ZodObject where
  "UpdateProjectItemSchema =
     [(''projectId'', ZString),
      (''itemId'', ZString),
      (''fieldId'', ZString),
      (''value'', ZString),
      (''fieldType'', ZOptional (ZEnum field_types))]"

definition CreateProjectFieldSchema :: ZodObject where
  "CreateProjectFieldSchema =
     [(''projectId'', ZString),
      (''name'', ZString),
      (''dataType'', ZEnum field_types),
      (''options'', ZOptional (ZArray ZString))]"

definition UpdateItemStatusSchema :: ZodObject where
  "UpdateItemStatusSchema =
     [(''projectId'', ZString), (''itemId'', ZString), (''status'', ZString)]"

definition GetProjectFieldsSchema :: ZodObject where
  "GetProjectFieldsSchema = [(''projectId'', ZString)]"

definition GetProjectItemsSchema :: ZodObject where
  "GetProjectItemsSchema =
     [(''projectId'', ZString), (''limit'', ZDefault (ZOptional ZNumber) (JNumber 20))]"

section \<open>The GitHub clients\<close>

text \<open>
  A request is the operation (a document of \<open>GRAPHQL_QUERIES\<close>, the inline items query of
  \<open>getProjectItems\<close>, or the REST call \<open>issues.create\<close>) with the object the handler
  passes to the client, property by property as the source writes it. A property can be
  \<open>undefined\<close>; the number \<open>parseFloat(s)\<close> is kept as \<open>ParseFloat s\<close>.
\<close>

datatype operation =
    GET_USER_PROJECTS
  | GET_ORG_PROJECTS
  | GET_PROJECT_DETAILS
  | CREATE_PROJECT
  | UPDATE_PROJECT
  | ADD_ITEM_TO_PROJECT
  | UPDATE_PROJECT_ITEM_FIELD
  | CREATE_PROJECT_FIELD
  | GET_USER_ID
  | GET_ORG_ID
  | GET_PROJECT_FIELDS_DETAILED
  | GetProjectItems
  | issues_create

datatype variable =
    Val json
  | ParseFloat string
  | Input "(string \<times> variable) list"

datatype request = Request operation "(string \<times> variable) list"

text \<open>
  The clients serialise the object with \<open>JSON.stringify\<close>, which leaves out every
  property whose value is \<open>undefined\<close>: these are the variables that go over the wire.
\<close>

definition sent_variables :: "request \<Rightarrow> (string \<times> variable) list" where
  "sent_variables r =
     (case r of Request oper vars \<Rightarrow> filter (\<lambda>(k, v). v \<noteq> Val JUndefined) vars)"

text \<open>
  The response types of index.ts. A field node of the project details can come back
  without \<open>id\<close>, \<open>name\<close> and \<open>dataType\<close> (see \<open>details_field\<close> below), so the three
  are optional here.
\<close>

record FieldOption =
  option_id :: string
  option_name :: string

record FieldNode =
  field_id :: "string option"
  field_name :: "string option"
  dataType :: "string option"
  options :: "FieldOption list option"

record Content =
  typename :: "string option"
  content_id :: string
  content_number :: "int option"
  content_title :: string
  state :: "string option"
  content_url :: "string option"
  body :: "string option"

record ItemNode =
  item_id :: string
  item_type :: string
  content :: "Content option"

record ProjectNode =
  project_id :: string
  number :: int
  title :: string
  shortDescription :: "string option"
  public :: bool
  closed :: bool
  createdAt :: string
  updatedAt :: string
  url :: string
  fields_nodes :: "FieldNode list option"
  items_nodes :: "ItemNode list option"

record CreatedField =
  created_id :: string
  created_name :: string
  created_dataType :: string

record Issue =
  issue_title :: string
  issue_number :: int
  html_url :: string
  node_id :: string

text \<open>
  GitHub is a parameter of every handler: one function for each operation, from the
  requests made so far (the last one is the request being answered) to the response, or
  to the message of the error that the client throws (the clients throw \<open>Error\<close> objects,
  and a handler reads nothing but the message of what it catches). The two listings that format dates
  with the locale of the host (\<open>fieldDetails\<close> of \<open>getProjectFields\<close>, \<open>itemDetails\<close> of
  \<open>getProjectItems\<close>) are parameters too, over the nodes they render, and so is
  \<open>String.prototype.toLowerCase\<close>.
\<close>

record ('f, 'i) github =
  user_projects :: "request list \<Rightarrow> string + ProjectNode list option option"
  org_projects :: "request list \<Rightarrow> string + ProjectNode list option option"
  project_details :: "request list \<Rightarrow> string + ProjectNode option"
  create_project :: "request list \<Rightarrow> string + ProjectNode"
  update_project :: "request list \<Rightarrow> string + ProjectNode"
  add_item :: "request list \<Rightarrow> string + string"
  update_item_field :: "request list \<Rightarrow> string + string"
  create_field :: "request list \<Rightarrow> string + CreatedField"
  user_id :: "request list \<Rightarrow> string + string option"
  org_id :: "request list \<Rightarrow> string + string option"
  project_fields_detailed :: "request list \<Rightarrow> string + (string \<times> 'f list option) option"
  project_items :: "request list \<Rightarrow> string + (string \<times> 'i list option) option"
  create_issue :: "request list \<Rightarrow> string + Issue"
  fieldDetails :: "'f list \<Rightarrow> string + string"
  itemDetails :: "'i list \<Rightarrow> string + string"
  toLowerCase :: "string \<Rightarrow> string"

text \<open>\<open>await client(document, variables)\<close>: the request is logged, then answered.\<close>

definition send ::
  "(request list \<Rightarrow> string + 'a) \<Rightarrow> operation \<Rightarrow> (string \<times> variable) list \<Rightarrow> request list
     \<Rightarrow> (string + 'a) \<times> request list" where
  "send endpoint oper vars log =
     (endpoint (log @ [Request oper vars]), log @ [Request oper vars])"

section \<open>The tool handlers\<close>

text \<open>
  What leaves a handler as an exception, and what it returns:
  \<open>{content: [{type: "text", text}]}\<close>.
\<close>

datatype ErrorCode = InvalidParams | MethodNotFound

datatype thrown =
    ZodError "ZodIssue list"
  | TypeError string
  | McpError ErrorCode string

datatype CallToolResult = Text string

type_synonym outcome = "(thrown + CallToolResult) \<times> request list"

text \<open>\<open>${s || 'No description'}\<close> and \<open>${s}\<close> for an optional string or number.\<close>

definition or_else :: "string option \<Rightarrow> string \<Rightarrow> string" where
  "or_else x d = (case x of None \<Rightarrow> d | Some s \<Rightarrow> if s = [] then d else s)"

definition tpl :: "string option \<Rightarrow> string" where
  "tpl x = js_String (opt_json x)"

definition tpl_int :: "int option \<Rightarrow> string" where
  "tpl_int x = (case x of None \<Rightarrow> ''undefined'' | Some n \<Rightarrow> show_int n)"

subsection \<open>listProjects\<close>

definition project_entry :: "ProjectNode \<Rightarrow> string" where
  "project_entry project =
     bullet @ '' '' @ title project @ '' (#'' @ show_int (number project) @ '')'' @ nl @
     ''  ID: '' @ project_id project @ nl @
     ''  Description: '' @ or_else (shortDescription project) ''No description'' @ nl @
     ''  Visibility: '' @ (if public project then ''Public'' else ''Private'') @ nl @
     ''  Status: '' @ (if closed project then ''Closed'' else ''Open'') @ nl @
     ''  URL: '' @ url project @ nl"

definition listProjects :: "('f, 'i) github \<Rightarrow> json \<Rightarrow> request list \<Rightarrow> outcome" where
  "listProjects gh args log =
     (if args = JUndefined \<or> args = JNull then
        (Inl (TypeError (''Cannot destructure property '' @ quote @ ''owner'' @ quote @
                         '' of '' @ quote @ ''args'' @ quote @ '' as it is '' @
                         js_String args @ ''.'')), log)
      else
        let obj = (case args of JObject kvs \<Rightarrow> kvs | _ \<Rightarrow> []);
            owner = property obj ''owner'';
            owner_type = (if property obj ''type'' = JUndefined then JString ''user''
                          else property obj ''type'')
        in
          (case (if owner_type = JString ''organization''
                 then send (org_projects gh) GET_ORG_PROJECTS [(''login'', Val owner)] log
                 else send (user_projects gh) GET_USER_PROJECTS [(''login'', Val owner)] log) of
             (Inl msg, log') \<Rightarrow> (Inr (Text (''Error listing projects: '' @ msg)), log')
           | (Inr result, log') \<Rightarrow>
               let projects = (case result of Some (Some nodes) \<Rightarrow> nodes | _ \<Rightarrow> [])
               in (Inr (Text (''Projects for '' @ js_String owner @ '':'' @ nl @ nl @
                              join nl (map project_entry projects))), log')))"

subsection \<open>getProject\<close>

definition field_entry :: "FieldNode \<Rightarrow> string" where
  "field_entry field =
     bullet @ '' '' @ tpl (field_name field) @ '' ('' @ tpl (dataType field) @ '') - ID: '' @
     tpl (field_id field) @ nl"

definition item_entry :: "ItemNode \<Rightarrow> string" where
  "item_entry item =
     (case content item of
        Some c \<Rightarrow>
          if typename c = Some ''Issue'' \<or> typename c = Some ''PullRequest'' then
            bullet @ '' '' @ content_title c @ '' (#'' @ tpl_int (content_number c) @ '') - '' @
            tpl (state c) @ nl @ ''  URL: '' @ tpl (content_url c) @ nl
          else if typename c = Some ''DraftIssue'' then
            bullet @ '' '' @ content_title c @ '' (Draft)'' @ nl
          else bullet @ '' Item ID: '' @ item_id item @ nl
      | None \<Rightarrow> bullet @ '' Item ID: '' @ item_id item @ nl)"

definition nodes_or_empty :: "'a list option \<Rightarrow> 'a list" where
  "nodes_or_empty ns = (case ns of None \<Rightarrow> [] | Some xs \<Rightarrow> xs)"

definition getProject :: "('f, 'i) github \<Rightarrow> json \<Rightarrow> request list \<Rightarrow> outcome" where
  "getProject gh args log =
     (case parse GetProjectSchema args of
        Inl errors \<Rightarrow> (Inl (ZodError errors), log)
      | Inr a \<Rightarrow>
          (case send (project_details gh) GET_PROJECT_DETAILS
                  [(''projectId'', Val (property a ''projectId''))] log of
             (Inl msg, log') \<Rightarrow> (Inr (Text (''Error getting project: '' @ msg)), log')
           | (Inr None, log') \<Rightarrow>
               (Inr (Text (''Error getting project: '' @ ''Project not found'')), log')
           | (Inr (Some project), log') \<Rightarrow>
               (Inr (Text (
                  ''Project Details:'' @ nl @ nl @
                  ''Title: '' @ title project @ nl @
                  ''ID: '' @ project_id project @ nl @
                  ''Number: #'' @ show_int (number project) @ nl @
                  ''Description: '' @ or_else (shortDescription project) ''No description'' @ nl @
                  ''Visibility: '' @ (if public project then ''Public'' else ''Private'') @ nl @
                  ''Status: '' @ (if closed project then ''Closed'' else ''Open'') @ nl @
                  ''URL: '' @ url project @ nl @ nl @
                  ''Fields ('' @ show_nat (length (nodes_or_empty (fields_nodes project))) @ ''):'' @ nl @
                  concat (map field_entry (nodes_or_empty (fields_nodes project))) @ nl @
                  ''Items ('' @ show_nat (length (nodes_or_empty (items_nodes project))) @ ''):'' @ nl @
                  concat (map item_entry (nodes_or_empty (items_nodes project))))), log')))"

subsection \<open>createProject\<close>

text \<open>
  The owner id: the user lookup first; the organization lookup in the \<open>catch\<close> of the user
  lookup, so only when that one throws. An error of the organization lookup is not caught
  here: it reaches the handler's outer \<open>catch\<close>.
\<close>

definition resolveOwnerId ::
  "('f, 'i) github \<Rightarrow> json \<Rightarrow> request list \<Rightarrow> (string + string option) \<times> request list" where
  "resolveOwnerId gh owner log =
     (case send (user_id gh) GET_USER_ID [(''login'', Val owner)] log of
        (Inr ownerId, log') \<Rightarrow> (Inr ownerId, log')
      | (Inl msg, log') \<Rightarrow> send (org_id gh) GET_ORG_ID [(''login'', Val owner)] log')"

definition createProject :: "('f, 'i) github \<Rightarrow> json \<Rightarrow> request list \<Rightarrow> outcome" where
  "createProject gh args log =
     (case parse CreateProjectSchema args of
        Inl errors \<Rightarrow> (Inl (ZodError errors), log)
      | Inr a \<Rightarrow>
          (case resolveOwnerId gh (property a ''owner'') log of
             (Inl msg, log1) \<Rightarrow> (Inr (Text (''Error creating project: '' @ msg)), log1)
           | (Inr ownerId, log1) \<Rightarrow>
               if \<not> truthy (opt_json ownerId) then
                 (Inr (Text (''Error creating project: '' @ ''Owner '' @ quote @
                             js_String (property a ''owner'') @ quote @ '' not found'')), log1)
               else
                 (case send (create_project gh) CREATE_PROJECT
                         [(''ownerId'', Val (opt_json ownerId)),
                          (''title'', Val (property a ''title'')),
                          (''description'', Val (property a ''description'')),
                          (''visibility'', Val (property a ''visibility''))] log1 of
                    (Inl msg, log2) \<Rightarrow> (Inr (Text (''Error creating project: '' @ msg)), log2)
                  | (Inr project, log2) \<Rightarrow>
                      (Inr (Text (
                         ''Project created successfully!'' @ nl @ nl @
                         ''Title: '' @ title project @ nl @
                         ''ID: '' @ project_id project @ nl @
                         ''Number: #'' @ show_int (number project) @ nl @
                         ''Description: '' @
                           or_else (shortDescription project) ''No description'' @ nl @
                         ''URL: '' @ url project)), log2))))"

subsection \<open>updateProject\<close>

definition updateProject :: "('f, 'i) github \<Rightarrow> json \<Rightarrow> request list \<Rightarrow> outcome" where
  "updateProject gh args log =
     (case parse UpdateProjectSchema args of
        Inl errors \<Rightarrow> (Inl (ZodError errors), log)
      | Inr a \<Rightarrow>
          (case send (update_project gh) UPDATE_PROJECT
                  [(''projectId'', Val (property a ''projectId'')),
                   (''title'', Val (property a ''title'')),
                   (''description'', Val (property a ''description'')),
                   (''visibility'', Val (property a ''visibility''))] log of
             (Inl msg, log') \<Rightarrow> (Inr (Text (''Error updating project: '' @ msg)), log')
           | (Inr project, log') \<Rightarrow>
               (Inr (Text (
                  ''Project updated successfully!'' @ nl @ nl @
                  ''Title: '' @ title project @ nl @
                  ''ID: '' @ project_id project @ nl @
                  ''Description: '' @ or_else (shortDescription project) ''No description'' @ nl @
                  ''Visibility: '' @ (if public project then ''Public'' else ''Private''))),
                log')))"

subsection \<open>createIssue\<close>

definition createIssue :: "('f, 'i) github \<Rightarrow> json \<Rightarrow> request list \<Rightarrow> outcome" where
  "createIssue gh args log =
     (case parse CreateIssueSchema args of
        Inl errors \<Rightarrow> (Inl (ZodError errors), log)
      | Inr a \<Rightarrow>
          (case send (create_issue gh) issues_create
                  [(''owner'', Val (property a ''owner'')),
                   (''repo'', Val (property a ''repo'')),
                   (''title'', Val (property a ''title'')),
                   (''body'', Val (property a ''body''))] log of
             (Inl msg, log1) \<Rightarrow> (Inr (Text (''Error creating issue: '' @ msg)), log1)
           | (Inr issue, log1) \<Rightarrow>
               let result =
                     ''Issue created successfully!'' @ nl @ nl @
                     ''Title: '' @ issue_title issue @ nl @
                     ''Number: #'' @ show_int (issue_number issue) @ nl @
                     ''URL: '' @ html_url issue @ nl @
                     ''Node ID: '' @ node_id issue
               in
                 if truthy (property a ''projectId'') \<and> node_id issue \<noteq> [] then
                   (case send (add_item gh) ADD_ITEM_TO_PROJECT
                           [(''projectId'', Val (property a ''projectId'')),
                            (''contentId'', Val (JString (node_id issue)))] log1 of
                      (Inr item, log2) \<Rightarrow>
                        (Inr (Text (result @ nl @ nl @
                                    ''Issue added to project successfully!'')), log2)
                    | (Inl msg, log2) \<Rightarrow>
                        (Inr (Text (result @ nl @ nl @
                                    ''Warning: Could not add issue to project: '' @ msg)), log2))
                 else (Inr (Text result), log1)))"

subsection \<open>addItemToProject\<close>

definition addItemToProject :: "('f, 'i) github \<Rightarrow> json \<Rightarrow> request list \<Rightarrow> outcome" where
  "addItemToProject gh args log =
     (case parse AddItemToProjectSchema args of
        Inl errors \<Rightarrow> (Inl (ZodError errors), log)
      | Inr a \<Rightarrow>
          (case send (add_item gh) ADD_ITEM_TO_PROJECT
                  [(''projectId'', Val (property a ''projectId'')),
                   (''contentId'', Val (property a ''contentId''))] log of
             (Inl msg, log') \<Rightarrow> (Inr (Text (''Error adding item to project: '' @ msg)), log')
           | (Inr item, log') \<Rightarrow>
               (Inr (Text (''Item added to project successfully!'' @ nl @ nl @
                           ''Item ID: '' @ item)), log')))"

subsection \<open>updateProjectItem\<close>

text \<open>\<open>project?.fields?.nodes?.find((f) => f.id === fieldId)\<close>\<close>

definition find_field :: "ProjectNode option \<Rightarrow> json \<Rightarrow> FieldNode option" where
  "find_field project fieldId =
     (case project of
        None \<Rightarrow> None
      | Some p \<Rightarrow>
          (case fields_nodes p of
             None \<Rightarrow> None
           | Some nodes \<Rightarrow> find (\<lambda>f. opt_json (field_id f) = fieldId) nodes))"

text \<open>\<open>options?.find((opt) => opt.name.toLowerCase() === value.toLowerCase())\<close>\<close>

definition find_option ::
  "(string \<Rightarrow> string) \<Rightarrow> FieldOption list option \<Rightarrow> string \<Rightarrow> FieldOption option" where
  "find_option lower opts v =
     (case opts of
        None \<Rightarrow> None
      | Some os \<Rightarrow> find (\<lambda>opt. lower (option_name opt) = lower v) os)"

text \<open>\<open>${options?.map((opt) => opt.name).join(', ')}\<close>\<close>

definition option_names :: "FieldOption list option \<Rightarrow> string" where
  "option_names opts =
     (case opts of None \<Rightarrow> ''undefined'' | Some os \<Rightarrow> join '', '' (map option_name os))"

text \<open>
  \<open>actualFieldType\<close> before the switch: the field type of the caller when there is one;
  otherwise the project details are fetched: \<open>TEXT\<close> when the fetch throws, else the
  \<open>dataType\<close> of the field found, which is \<open>undefined\<close> when no field has the id.
\<close>

definition actualFieldType ::
  "('f, 'i) github \<Rightarrow> json \<Rightarrow> json \<Rightarrow> json \<Rightarrow> request list \<Rightarrow> json \<times> request list" where
  "actualFieldType gh projectId fieldId fieldType log =
     (if \<not> truthy fieldType then
        (case send (project_details gh) GET_PROJECT_DETAILS
                [(''projectId'', Val projectId)] log of
           (Inl msg, log') \<Rightarrow> (JString ''TEXT'', log')
         | (Inr project, log') \<Rightarrow>
             ((case find_field project fieldId of
                 None \<Rightarrow> JUndefined
               | Some field \<Rightarrow> opt_json (dataType field)), log'))
      else (fieldType, log))"

text \<open>The \<open>SINGLE_SELECT\<close> case of the switch: the option id for the option name.\<close>

definition singleSelectValue ::
  "('f, 'i) github \<Rightarrow> json \<Rightarrow> json \<Rightarrow> json \<Rightarrow> request list
     \<Rightarrow> (string + variable) \<times> request list" where
  "singleSelectValue gh projectId fieldId val log =
     (case send (project_details gh) GET_PROJECT_DETAILS [(''projectId'', Val projectId)] log of
        (Inl msg, log') \<Rightarrow> (Inl (''Failed to find single select option: '' @ msg), log')
      | (Inr project, log') \<Rightarrow>
          let opts = (case find_field project fieldId of
                        None \<Rightarrow> None
                      | Some field \<Rightarrow> options field)
          in (case find_option (toLowerCase gh) opts (js_String val) of
                Some opt \<Rightarrow> (Inr (Input [(''singleSelectOptionId'', Val (JString (option_id opt)))]),
                             log')
              | None \<Rightarrow>
                  (Inl (''Failed to find single select option: '' @
                        ''Option '' @ quote @ js_String val @ quote @
                        '' not found for field. Available options: '' @ option_names opts),
                   log')))"

definition formatValue ::
  "('f, 'i) github \<Rightarrow> json \<Rightarrow> json \<Rightarrow> json \<Rightarrow> json \<Rightarrow> request list
     \<Rightarrow> (string + variable) \<times> request list" where
  "formatValue gh projectId fieldId val actualType log =
     (if actualType = JString ''TEXT'' then (Inr (Input [(''text'', Val val)]), log)
      else if actualType = JString ''NUMBER'' then
        (Inr (Input [(''number'', ParseFloat (js_String val))]), log)
      else if actualType = JString ''DATE'' then (Inr (Input [(''date'', Val val)]), log)
      else if actualType = JString ''SINGLE_SELECT'' then
        singleSelectValue gh projectId fieldId val log
      else if actualType = JString ''ITERATION'' then
        (Inr (Input [(''iterationId'', Val val)]), log)
      else (Inr (Input [(''text'', Val val)]), log))"

definition updateProjectItem :: "('f, 'i) github \<Rightarrow> json \<Rightarrow> request list \<Rightarrow> outcome" where
  "updateProjectItem gh args log =
     (case parse UpdateProjectItemSchema args of
        Inl errors \<Rightarrow> (Inl (ZodError errors), log)
      | Inr a \<Rightarrow>
          let projectId = property a ''projectId'';
              itemId = property a ''itemId'';
              fieldId = property a ''fieldId'';
              val = property a ''value'';
              fieldType = property a ''fieldType''
          in
            (case actualFieldType gh projectId fieldId fieldType log of
               (actualType, log1) \<Rightarrow>
                 (case formatValue gh projectId fieldId val actualType log1 of
                    (Inl msg, log2) \<Rightarrow>
                      (Inr (Text (''Error updating project item: '' @ msg)), log2)
                  | (Inr formattedValue, log2) \<Rightarrow>
                      (case send (update_item_field gh) UPDATE_PROJECT_ITEM_FIELD
                              [(''projectId'', Val projectId),
                               (''itemId'', Val itemId),
                               (''fieldId'', Val fieldId),
                               (''value'', formattedValue)] log2 of
                         (Inl msg, log3) \<Rightarrow>
                           (Inr (Text (''Error updating project item: '' @ msg)), log3)
                       | (Inr item, log3) \<Rightarrow>
                           (Inr (Text (
                              ''Project item field updated successfully!'' @ nl @ nl @
                              ''Item ID: '' @ item @ nl @
                              ''Field Type: '' @ js_String actualType @ nl @
                              ''New Value: '' @ js_String val)), log3)))))"

subsection \<open>createProjectField\<close>

definition createProjectField :: "('f, 'i) github \<Rightarrow> json \<Rightarrow> request list \<Rightarrow> outcome" where
  "createProjectField gh args log =
     (case parse CreateProjectFieldSchema args of
        Inl errors \<Rightarrow> (Inl (ZodError errors), log)
      | Inr a \<Rightarrow>
          (case send (create_field gh) CREATE_PROJECT_FIELD
                  [(''projectId'', Val (property a ''projectId'')),
                   (''name'', Val (property a ''name'')),
                   (''dataType'', Val (property a ''dataType''))] log of
             (Inl msg, log') \<Rightarrow> (Inr (Text (''Error creating project field: '' @ msg)), log')
           | (Inr field, log') \<Rightarrow>
               (Inr (Text (
                  ''Project field created successfully!'' @ nl @ nl @
                  ''Name: '' @ created_name field @ nl @
                  ''ID: '' @ created_id field @ nl @
                  ''Type: '' @ created_dataType field)), log')))"

subsection \<open>updateItemStatus\<close>

definition is_status_name :: "(string \<Rightarrow> string) \<Rightarrow> string \<Rightarrow> bool" where
  "is_status_name lower name =
     (str_includes (lower name) ''status'' \<or>
      str_includes (lower name) ''state'' \<or>
      str_includes (lower name) ''column'')"

text \<open>
  \<open>nodes.find((field) => field.name.toLowerCase().includes(...) || ...)\<close>: the first node
  with such a name. A node without a name that is reached before a match makes
  \<open>field.name.toLowerCase()\<close> throw a TypeError (the message is the one of Node's engine).
\<close>

fun find_status_field ::
  "(string \<Rightarrow> string) \<Rightarrow> FieldNode list \<Rightarrow> string + FieldNode option" where
  "find_status_field lower [] = Inr None"
| "find_status_field lower (field # rest) =
     (case field_name field of
        None \<Rightarrow> Inl (''Cannot read properties of undefined (reading '' @ quote @
                     ''toLowerCase'' @ quote @ '')'')
      | Some name \<Rightarrow>
          if is_status_name lower name then Inr (Some field) else find_status_field lower rest)"

text \<open>\<open>(project.fields?.nodes?.map((f) => f.name).join(', ') || 'none')\<close>\<close>

definition available_fields :: "ProjectNode \<Rightarrow> string" where
  "available_fields project =
     (case fields_nodes project of
        None \<Rightarrow> ''none''
      | Some nodes \<Rightarrow>
          let names = join '', '' (map (\<lambda>f. case field_name f of None \<Rightarrow> [] | Some n \<Rightarrow> n) nodes)
          in if names = [] then ''none'' else names)"

definition updateItemStatus :: "('f, 'i) github \<Rightarrow> json \<Rightarrow> request list \<Rightarrow> outcome" where
  "updateItemStatus gh args log =
     (case parse UpdateItemStatusSchema args of
        Inl errors \<Rightarrow> (Inl (ZodError errors), log)
      | Inr a \<Rightarrow>
          let projectId = property a ''projectId'';
              itemId = property a ''itemId'';
              status = property a ''status''
          in
            (case send (project_details gh) GET_PROJECT_DETAILS
                    [(''projectId'', Val projectId)] log of
               (Inl msg, log1) \<Rightarrow> (Inr (Text (''Error updating status: '' @ msg)), log1)
             | (Inr None, log1) \<Rightarrow>
                 (Inr (Text (''Error updating status: '' @ ''Project not found'')), log1)
             | (Inr (Some project), log1) \<Rightarrow>
                 (case (case fields_nodes project of
                          None \<Rightarrow> Inr None
                        | Some nodes \<Rightarrow> find_status_field (toLowerCase gh) nodes) of
                    Inl msg \<Rightarrow> (Inr (Text (''Error updating status: '' @ msg)), log1)
                  | Inr None \<Rightarrow>
                      (Inr (Text (''Error updating status: '' @
                                  ''No status field found. Available fields: '' @
                                  available_fields project)), log1)
                  | Inr (Some statusField) \<Rightarrow>
                      (case find_option (toLowerCase gh) (options statusField)
                              (js_String status) of
                         None \<Rightarrow>
                           (Inr (Text (''Error updating status: '' @
                                       ''Status '' @ quote @ js_String status @ quote @
                                       '' not found. Available statuses: '' @
                                       option_names (options statusField))), log1)
                       | Some opt \<Rightarrow>
                           (case send (update_item_field gh) UPDATE_PROJECT_ITEM_FIELD
                                   [(''projectId'', Val projectId),
                                    (''itemId'', Val itemId),
                                    (''fieldId'', Val (opt_json (field_id statusField))),
                                    (''value'', Input [(''singleSelectOptionId'',
                                                       Val (JString (option_id opt)))])] log1 of
                              (Inl msg, log2) \<Rightarrow>
                                (Inr (Text (''Error updating status: '' @ msg)), log2)
                            | (Inr item, log2) \<Rightarrow>
                                (Inr (Text (
                                   ''Status updated successfully!'' @ nl @ nl @
                                   ''Item ID: '' @ item @ nl @
                                   ''Field: '' @ tpl (field_name statusField) @ nl @
                                   ''New Status: '' @ js_String status)), log2))))))"

subsection \<open>getProjectFields\<close>

definition getProjectFields :: "('f, 'i) github \<Rightarrow> json \<Rightarrow> request list \<Rightarrow> outcome" where
  "getProjectFields gh args log =
     (case parse GetProjectFieldsSchema args of
        Inl errors \<Rightarrow> (Inl (ZodError errors), log)
      | Inr a \<Rightarrow>
          (case send (project_fields_detailed gh) GET_PROJECT_FIELDS_DETAILED
                  [(''projectId'', Val (property a ''projectId''))] log of
             (Inl msg, log') \<Rightarrow> (Inr (Text (''Error getting project fields: '' @ msg)), log')
           | (Inr None, log') \<Rightarrow>
               (Inr (Text (''Error getting project fields: '' @ ''Project not found'')), log')
           | (Inr (Some (project_title, nodes)), log') \<Rightarrow>
               let fs = nodes_or_empty nodes in
                 if length fs = 0 then
                   (Inr (Text ''No custom fields found in this project.''), log')
                 else
                   (case fieldDetails gh fs of
                      Inl msg \<Rightarrow>
                        (Inr (Text (''Error getting project fields: '' @ msg)), log')
                    | Inr details \<Rightarrow>
                        (Inr (Text (
                           ''Project Fields for '' @ project_title @ '':'' @ nl @ nl @
                           ''Total Fields: '' @ show_nat (length fs) @ nl @ nl @ details @
                           nl @ nl @ ''**Usage Examples:**'' @ nl @ ''- Text field: '' @
                           backtick @ ''{'' @ dquote @ ''fieldId'' @ dquote @ '': '' @
                           dquote @ ''field_id'' @ dquote @ '', '' @ dquote @ ''value'' @
                           dquote @ '': '' @ dquote @ ''text'' @ dquote @ '', '' @ dquote @
                           ''fieldType'' @ dquote @ '': '' @ dquote @ ''TEXT'' @ dquote @
                           ''}'' @ backtick @ nl @ ''- Status field: '' @ backtick @ ''{'' @
                           dquote @ ''fieldId'' @ dquote @ '': '' @ dquote @ ''field_id'' @
                           dquote @ '', '' @ dquote @ ''value'' @ dquote @ '': '' @ dquote @
                           ''option_name'' @ dquote @ '', '' @ dquote @ ''fieldType'' @
                           dquote @ '': '' @ dquote @ ''SINGLE_SELECT'' @ dquote @ ''}'' @
                           backtick @ nl @ ''- Quick status update: '' @ backtick @ ''{'' @
                           dquote @ ''projectId'' @ dquote @ '': '' @ dquote @
                           js_String (property a ''projectId'') @ dquote @ '', '' @ dquote @
                           ''itemId'' @ dquote @ '': '' @ dquote @ ''item_id'' @ dquote @
                           '', '' @ dquote @ ''status'' @ dquote @ '': '' @ dquote @
                           ''option_name'' @ dquote @ ''}'' @ backtick @ nl @ nl @
                           ''**Built-in Fields:**'' @ nl @
                           ''- Title: Always available for all items'' @ nl @
                           ''- Assignees: Built-in user assignment field'' @ nl @
                           ''- Status: Default status tracking field'' @ nl @
                           ''- Labels: Built-in labeling system'')), log'))))"

subsection \<open>getProjectItems\<close>

definition getProjectItems :: "('f, 'i) github \<Rightarrow> json \<Rightarrow> request list \<Rightarrow> outcome" where
  "getProjectItems gh args log =
     (case parse GetProjectItemsSchema args of
        Inl errors \<Rightarrow> (Inl (ZodError errors), log)
      | Inr a \<Rightarrow>
          (case send (project_items gh) GetProjectItems
                  [(''projectId'', Val (property a ''projectId'')),
                   (''first'', Val (property a ''limit''))] log of
             (Inl msg, log') \<Rightarrow> (Inr (Text (''Error getting project items: '' @ msg)), log')
           | (Inr None, log') \<Rightarrow>
               (Inr (Text (''Error getting project items: '' @ ''Project not found'')), log')
           | (Inr (Some (project_title, nodes)), log') \<Rightarrow>
               let its = nodes_or_empty nodes in
                 if length its = 0 then
                   (Inr (Text (''No items found in project '' @ dquote @ project_title @ dquote @ ''.'')),
                    log')
                 else
                   (case itemDetails gh its of
                      Inl msg \<Rightarrow>
                        (Inr (Text (''Error getting project items: '' @ msg)), log')
                    | Inr details \<Rightarrow>
                        (Inr (Text (
                           ''Project Items for '' @ dquote @ project_title @ dquote @ '':'' @ nl @
                           nl @ ''Total Items: '' @ show_nat (length its) @ nl @ nl @
                           details @ nl @ nl @ ''**Quick Actions:**'' @ nl @
                           ''- Update status: '' @ backtick @ ''update-item-status'' @
                           backtick @ '' with itemId and status'' @ nl @
                           ''- Update any field: '' @ backtick @ ''update-project-item'' @
                           backtick @ '' with itemId, fieldId, and value'')), log'))))"

section \<open>The dispatcher\<close>

text \<open>
  The handler of \<open>CallToolRequestSchema\<close>: the switch on the tool name, and the \<open>catch\<close>
  that turns a \<open>ZodError\<close> into an \<open>InvalidParams\<close> fault with the messages of its issues
  and rethrows everything else.
\<close>

definition callTool :: "('f, 'i) github \<Rightarrow> string \<Rightarrow> json \<Rightarrow> request list \<Rightarrow> outcome" where
  "callTool gh name args log =
     (case (if name = ''list-projects'' then listProjects gh args log
            else if name = ''get-project'' then getProject gh args log
            else if name = ''create-project'' then createProject gh args log
            else if name = ''update-project'' then updateProject gh args log
            else if name = ''create-issue'' then createIssue gh args log
            else if name = ''add-item-to-project'' then addItemToProject gh args log
            else if name = ''update-project-item'' then updateProjectItem gh args log
            else if name = ''create-project-field'' then createProjectField gh args log
            else if name = ''update-item-status'' then updateItemStatus gh args log
            else if name = ''get-project-fields'' then getProjectFields gh args log
            else if name = ''get-project-items'' then getProjectItems gh args log
            else (Inl (McpError MethodNotFound (''Unknown tool: '' @ name)), log)) of
        (Inl (ZodError errors), log') \<Rightarrow>
          (Inl (McpError InvalidParams
                  (''Invalid arguments: '' @ join '', '' (map message errors))), log')
      | result \<Rightarrow> result)"

section \<open>What the project details query returns for the fields of a project\<close>

text \<open>
  \<open>GET_PROJECT_DETAILS\<close> asks for \<open>fields(first: 20)\<close> and selects, on each node,
  \<open>id name dataType\<close> of a \<open>ProjectV2Field\<close> and \<open>id name dataType options {id name}\<close> of a
  \<open>ProjectV2SingleSelectField\<close>. It has no fragment for the third kind of field, the
  \<open>ProjectV2IterationField\<close>, so such a node comes back with nothing selected. A field of
  a project is given by its kind, id, name and data type.
\<close>

datatype ProjectV2FieldConfiguration =
    ProjectV2Field string string string
  | ProjectV2SingleSelectField string string string "FieldOption list"
  | ProjectV2IterationField string string string

fun configuration_name :: "ProjectV2FieldConfiguration \<Rightarrow> string" where
  "configuration_name (ProjectV2Field i n d) = n"
| "configuration_name (ProjectV2SingleSelectField i n d os) = n"
| "configuration_name (ProjectV2IterationField i n d) = n"

fun details_field :: "ProjectV2FieldConfiguration \<Rightarrow> FieldNode" where
  "details_field (ProjectV2Field i n d) =
     \<lparr>field_id = Some i, field_name = Some n, dataType = Some d, options = None\<rparr>"
| "details_field (ProjectV2SingleSelectField i n d os) =
     \<lparr>field_id = Some i, field_name = Some n, dataType = Some d, options = Some os\<rparr>"
| "details_field (ProjectV2IterationField i n d) =
     \<lparr>field_id = None, field_name = None, dataType = None, options = None\<rparr>"

definition details_fields :: "ProjectV2FieldConfiguration list \<Rightarrow> FieldNode list" where
  "details_fields fs = map details_field (take 20 fs)"

section \<open>Reference notions\<close>

text \<open>
  What a schema asks of a value, said directly: the reference against which the issues
  of \<open>zissues\<close> are compared. A field of a schema is violated when its value does not
  conform.
\<close>

fun accepts :: "ZodType \<Rightarrow> json \<Rightarrow> bool" where
  "accepts ZString v = (case v of JString s \<Rightarrow> True | _ \<Rightarrow> False)"
| "accepts ZNumber v = (case v of JNumber n \<Rightarrow> True | _ \<Rightarrow> False)"
| "accepts (ZEnum opts) v = (case v of JString s \<Rightarrow> s \<in> set opts | _ \<Rightarrow> False)"
| "accepts (ZArray t) v = (case v of JArray xs \<Rightarrow> list_all (accepts t) xs | _ \<Rightarrow> False)"
| "accepts (ZOptional t) v = (v = JUndefined \<or> accepts t v)"
| "accepts (ZDefault t d) v = accepts t (if v = JUndefined then d else v)"

definition violated_fields :: "ZodObject \<Rightarrow> (string \<times> json) list \<Rightarrow> string list" where
  "violated_fields shape kvs = map fst (filter (\<lambda>(k, t). \<not> accepts t (property kvs k)) shape)"

text \<open>
  The schema that the handler of each tool parses its arguments with. \<open>list-projects\<close>
  has none: \<open>listProjects\<close> reads \<open>owner\<close> and \<open>type\<close> from the arguments as they are.
\<close>

definition tool_schema :: "string \<Rightarrow> ZodObject option" where
  "tool_schema =
     map_of
       [(''get-project'', GetProjectSchema),
        (''create-project'', CreateProjectSchema),
        (''update-project'', UpdateProjectSchema),
        (''create-issue'', CreateIssueSchema),
        (''add-item-to-project'', AddItemToProjectSchema),
        (''update-project-item'', UpdateProjectItemSchema),
        (''create-project-field'', CreateProjectFieldSchema),
        (''update-item-status'', UpdateItemStatusSchema),
        (''get-project-fields'', GetProjectFieldsSchema),
        (''get-project-items'', GetProjectItemsSchema)]"

text \<open>The fields for which the details query has no fragment.\<close>

fun is_iteration :: "ProjectV2FieldConfiguration \<Rightarrow> bool" where
  "is_iteration (ProjectV2IterationField i n d) = True"
| "is_iteration (ProjectV2Field i n d) = False"
| "is_iteration (ProjectV2SingleSelectField i n d os) = False"

text \<open>
  The scan for the status field comes to an iteration field: going through the fields in
  order, the first one that is an iteration field or has a status-like name is an
  iteration field.
\<close>

definition reaches_iteration ::
  "(string \<Rightarrow> string) \<Rightarrow> ProjectV2FieldConfiguration list \<Rightarrow> bool" where
  "reaches_iteration lower fs =
     (case find (\<lambda>f. is_iteration f \<or> is_status_name lower (configuration_name f)) fs of
        None \<Rightarrow> False
      | Some f \<Rightarrow> is_iteration f)"

section \<open>Scenarios\<close>

text \<open>
  A GitHub that answers nothing: every request fails. The names of the scenarios are ASCII,
  so \<open>toLowerCase\<close> is \<open>ascii_toLowerCase\<close> on them.
\<close>

definition github_down :: "(unit, unit) github" where
  "github_down =
     \<lparr>user_projects = (\<lambda>log. Inl ''Service unavailable''),
      org_projects = (\<lambda>log. Inl ''Service unavailable''),
      project_details = (\<lambda>log. Inl ''Service unavailable''),
      create_project = (\<lambda>log. Inl ''Service unavailable''),
      update_project = (\<lambda>log. Inl ''Service unavailable''),
      add_item = (\<lambda>log. Inl ''Service unavailable''),
      update_item_field = (\<lambda>log. Inl ''Service unavailable''),
      create_field = (\<lambda>log. Inl ''Service unavailable''),
      user_id = (\<lambda>log. Inl ''Service unavailable''),
      org_id = (\<lambda>log. Inl ''Service unavailable''),
      project_fields_detailed = (\<lambda>log. Inl ''Service unavailable''),
      project_items = (\<lambda>log. Inl ''Service unavailable''),
      create_issue = (\<lambda>log. Inl ''Service unavailable''),
      fieldDetails = (\<lambda>fs. Inr []),
      itemDetails = (\<lambda>its. Inr []),
      toLowerCase = ascii_toLowerCase\<rparr>"

text \<open>A project with a title, a status and a text field, and a GitHub that serves it.\<close>

definition roadmap_configuration :: "ProjectV2FieldConfiguration list" where
  "roadmap_configuration =
     [ProjectV2Field ''F_title'' ''Title'' ''TITLE'',
      ProjectV2SingleSelectField ''F_status'' ''Status'' ''SINGLE_SELECT''
        [\<lparr>option_id = ''O_todo'', option_name = ''Todo''\<rparr>,
         \<lparr>option_id = ''O_doing'', option_name = ''In Progress''\<rparr>,
         \<lparr>option_id = ''O_done'', option_name = ''Done''\<rparr>],
      ProjectV2Field ''F_notes'' ''Notes'' ''TEXT'']"

definition project_with_fields :: "FieldNode list \<Rightarrow> ProjectNode" where
  "project_with_fields nodes =
     \<lparr>project_id = ''PVT_1'', number = 1, title = ''Roadmap'', shortDescription = None,
      public = False, closed = False, createdAt = ''2024-01-01T00:00:00Z'',
      updatedAt = ''2024-01-01T00:00:00Z'',
      url = ''https://github.com/orgs/acme-corp/projects/1'',
      fields_nodes = Some nodes, items_nodes = None\<rparr>"

definition github_serving :: "FieldNode list \<Rightarrow> (unit, unit) github" where
  "github_serving nodes =
     github_down
       \<lparr>project_details := (\<lambda>log. Inr (Some (project_with_fields nodes))),
        update_item_field := (\<lambda>log. Inr ''PVTI_1'')\<rparr>"

definition github_roadmap :: "(unit, unit) github" where
  "github_roadmap = github_serving (details_fields roadmap_configuration)"

text \<open>A project with an iteration field after its status field.\<close>

definition sprint_configuration :: "ProjectV2FieldConfiguration list" where
  "sprint_configuration =
     [ProjectV2Field ''F_title'' ''Title'' ''TITLE'',
      ProjectV2SingleSelectField ''F_status'' ''Status'' ''SINGLE_SELECT''
        [\<lparr>option_id = ''O_todo'', option_name = ''Todo''\<rparr>,
         \<lparr>option_id = ''O_done'', option_name = ''Done''\<rparr>],
      ProjectV2IterationField ''F_sprint'' ''Sprint'' ''ITERATION'']"

definition github_sprint :: "(unit, unit) github" where
  "github_sprint = github_serving (details_fields sprint_configuration)"

text \<open>A project with an iteration field before its status field.\<close>

definition github_sprint_first :: "(unit, unit) github" where
  "github_sprint_first =
     github_serving
       (details_fields
          [ProjectV2IterationField ''F_sprint'' ''Sprint'' ''ITERATION'',
           ProjectV2SingleSelectField ''F_status'' ''Status'' ''SINGLE_SELECT''
             [\<lparr>option_id = ''O_todo'', option_name = ''Todo''\<rparr>,
              \<lparr>option_id = ''O_done'', option_name = ''Done''\<rparr>]])"

text \<open>A project whose only status-like field is a text field named State.\<close>

definition github_text_state :: "(unit, unit) github" where
  "github_text_state =
     github_serving
       (details_fields
          [ProjectV2Field ''F_title'' ''Title'' ''TITLE'',
           ProjectV2Field ''F_state'' ''State'' ''TEXT''])"

text \<open>A project with twenty-one fields; the status field is the last one.\<close>

definition wide_configuration :: "ProjectV2FieldConfiguration list" where
  "wide_configuration =
     [ProjectV2Field ''F01'' ''Title'' ''TITLE'',
      ProjectV2Field ''F02'' ''Assignees'' ''ASSIGNEES'',
      ProjectV2Field ''F03'' ''Labels'' ''LABELS'',
      ProjectV2Field ''F04'' ''Linked pull requests'' ''LINKED_PULL_REQUESTS'',
      ProjectV2Field ''F05'' ''Milestone'' ''MILESTONE'',
      ProjectV2Field ''F06'' ''Repository'' ''REPOSITORY'',
      ProjectV2Field ''F07'' ''Reviewers'' ''REVIEWERS'',
      ProjectV2Field ''F08'' ''Parent issue'' ''PARENT_ISSUE'',
      ProjectV2Field ''F09'' ''Sub-issues progress'' ''SUB_ISSUES_PROGRESS'',
      ProjectV2Field ''F10'' ''Estimate'' ''NUMBER'',
      ProjectV2Field ''F11'' ''Start date'' ''DATE'',
      ProjectV2Field ''F12'' ''Target date'' ''DATE'',
      ProjectV2Field ''F13'' ''Team'' ''TEXT'',
      ProjectV2Field ''F14'' ''Area'' ''TEXT'',
      ProjectV2Field ''F15'' ''Notes'' ''TEXT'',
      ProjectV2Field ''F16'' ''Owner'' ''TEXT'',
      ProjectV2Field ''F17'' ''Effort'' ''NUMBER'',
      ProjectV2Field ''F18'' ''Risk'' ''TEXT'',
      ProjectV2Field ''F19'' ''Customer'' ''TEXT'',
      ProjectV2Field ''F20'' ''Release'' ''TEXT'',
      ProjectV2SingleSelectField ''F21'' ''Status'' ''SINGLE_SELECT''
        [\<lparr>option_id = ''O_todo'', option_name = ''Todo''\<rparr>,
         \<lparr>option_id = ''O_done'', option_name = ''Done''\<rparr>]]"

definition github_wide :: "(unit, unit) github" where
  "github_wide = github_serving (details_fields wide_configuration)"

text \<open>Issue creation works, adding the issue to the project fails.\<close>

definition github_attach_fails :: "(unit, unit) github" where
  "github_attach_fails =
     github_down
       \<lparr>create_issue :=
          (\<lambda>log. Inr \<lparr>issue_title = ''Crash on start'', issue_number = 7,
                       html_url = ''https://github.com/acme/app/issues/7'',
                       node_id = ''I_7''\<rparr>),
        add_item := (\<lambda>log. Inl ''Could not resolve to a node with the global id of PVT_x'')\<rparr>"

text \<open>A project without items.\<close>

definition github_no_items :: "(unit, unit) github" where
  "github_no_items =
     github_down \<lparr>project_items := (\<lambda>log. Inr (Some (''Roadmap'', Some [])))\<rparr>"

text \<open>An owner that is an organization: the user lookup throws, the other one answers.\<close>

definition github_org_only :: "(unit, unit) github" where
  "github_org_only =
     github_down
       \<lparr>user_id := (\<lambda>log. Inl ''Could not resolve to a User with the login of acme-corp.''),
        org_id := (\<lambda>log. Inr (Some ''O_acme'')),
        create_project := (\<lambda>log. Inr (project_with_fields []))\<rparr>"

text \<open>A user lookup that answers without a user.\<close>

definition github_no_user :: "(unit, unit) github" where
  "github_no_user = github_down \<lparr>user_id := (\<lambda>log. Inr None)\<rparr>"

section \<open>String lemmas\<close>

text \<open>\<open>str_includes s t\<close> holds exactly when \<open>t\<close> occurs in \<open>s\<close>.\<close>

lemma startsWith_iff: "startsWith s t \<longleftrightarrow> (\<exists>ss. s = t @ ss)"
  by (induction s t rule: startsWith.induct) auto

lemma str_includes_iff: "str_includes s t \<longleftrightarrow> (\<exists>ps ss. s = ps @ t @ ss)"
proof (induction s)
  case Nil
  then show ?case by auto
next
  case (Cons c s)
  show ?case
  proof
    assume "str_includes (c # s) t"
    then consider "startsWith (c # s) t" | "str_includes s t" by auto
    then show "\<exists>ps ss. c # s = ps @ t @ ss"
    proof cases
      case 1
      then obtain ss where "c # s = t @ ss" by (auto simp: startsWith_iff)
      then have "c # s = [] @ t @ ss" by simp
      then show ?thesis by blast
    next
      case 2
      then obtain ps ss where "s = ps @ t @ ss" using Cons.IH by auto
      then have "c # s = (c # ps) @ t @ ss" by simp
      then show ?thesis by blast
    qed
  next
    assume "\<exists>ps ss. c # s = ps @ t @ ss"
    then obtain ps ss where e: "c # s = ps @ t @ ss" by blast
    show "str_includes (c # s) t"
    proof (cases ps)
      case Nil
      with e have "startsWith (c # s) t" by (auto simp: startsWith_iff)
      then show ?thesis by simp
    next
      case (Cons p ps')
      with e have "s = ps' @ t @ ss" by simp
      then have "str_includes s t" using Cons.IH by blast
      then show ?thesis by simp
    qed
  qed
qed

section \<open>Validation lemmas\<close>

lemma zissues_Nil_iff: "zissues t p v = [] \<longleftrightarrow> accepts t v"
proof (induction t arbitrary: p v)
  case (ZArray t)
  show ?case
  proof (cases v)
    case (JArray xs)
    have "concat (map (\<lambda>(i, x). zissues t (p @ [Index i]) x) (enumerate n xs)) = []
            \<longleftrightarrow> list_all (accepts t) xs" for n
      by (induction xs arbitrary: n) (auto simp: ZArray.IH)
    then show ?thesis using JArray by simp
  qed (auto simp: invalid_type_def)
qed (auto simp: invalid_type_def invalid_enum_value_def split: json.splits)

lemma zissues_path: "i \<in> set (zissues t p v) \<Longrightarrow> \<exists>q. path i = p @ q"
proof (induction t arbitrary: p v)
  case (ZArray t)
  then show ?case
    by (cases v) (fastforce simp: invalid_type_def in_set_enumerate_eq)+
qed (auto simp: invalid_type_def invalid_enum_value_def split: json.splits if_splits)

lemma parse_Inr:
  assumes "parse shape args = Inr a"
  shows "\<exists>kvs. args = JObject kvs \<and>
           a = map (\<lambda>(k, t). (k, zoutput t (property kvs k))) shape \<and>
           list_all (\<lambda>(k, t). accepts t (property kvs k)) shape"
  using assms
  by (cases args)
     (auto simp: parse_def object_issues_def invalid_type_def zissues_Nil_iff list_all_iff
           split: list.splits)

lemma parse_Inl:
  "parse shape args = Inl errors \<longleftrightarrow>
     errors = object_issues shape args \<and> object_issues shape args \<noteq> []"
  by (auto simp: parse_def split: list.splits)

lemma accepts_ZString: "accepts ZString v \<longleftrightarrow> (\<exists>s. v = JString s)"
  by (cases v) auto

lemma accepts_ZEnum: "accepts (ZEnum opts) v \<longleftrightarrow> (\<exists>s. v = JString s \<and> s \<in> set opts)"
  by (cases v) auto

lemma accepts_ZNumber: "accepts ZNumber v \<longleftrightarrow> (\<exists>n. v = JNumber n)"
  by (cases v) auto

lemmas accepts_base = accepts_ZString accepts_ZEnum accepts_ZNumber

lemma zoutput_optional:
  "zoutput (ZOptional ZString) v = v"
  "zoutput (ZOptional (ZEnum os)) v = v"
  "zoutput (ZOptional ZNumber) v = v"
  by simp_all

text \<open>The parsed object of each schema, in terms of the arguments of the caller.\<close>

lemma parse_UpdateProject:
  assumes "parse UpdateProjectSchema (JObject kvs) = Inr a"
  shows "a = [(''projectId'', property kvs ''projectId''), (''title'', property kvs ''title''),
              (''description'', property kvs ''description''),
              (''visibility'', property kvs ''visibility'')]"
    and "\<exists>s. property kvs ''projectId'' = JString s"
    and "property kvs ''title'' = JUndefined \<or> (\<exists>s. property kvs ''title'' = JString s)"
    and "property kvs ''description'' = JUndefined \<or>
         (\<exists>s. property kvs ''description'' = JString s)"
    and "property kvs ''visibility'' = JUndefined \<or>
         (\<exists>s. property kvs ''visibility'' = JString s)"
  using parse_Inr[OF assms]
  by (auto simp: UpdateProjectSchema_def accepts_base zoutput_optional
           simp del: accepts.simps(1-3) zoutput.simps(1))

lemma parse_CreateIssue:
  assumes "parse CreateIssueSchema (JObject kvs) = Inr a"
  shows "a = [(''owner'', property kvs ''owner''), (''repo'', property kvs ''repo''),
              (''title'', property kvs ''title''), (''body'', property kvs ''body''),
              (''projectId'', property kvs ''projectId'')]"
  using parse_Inr[OF assms]
  by (auto simp: CreateIssueSchema_def accepts_base zoutput_optional
           simp del: accepts.simps(1-3) zoutput.simps(1))

lemma parse_UpdateItemStatus:
  assumes "parse UpdateItemStatusSchema (JObject kvs) = Inr a"
  shows "a = [(''projectId'', property kvs ''projectId''), (''itemId'', property kvs ''itemId''),
              (''status'', property kvs ''status'')]"
  using parse_Inr[OF assms]
  by (auto simp: UpdateItemStatusSchema_def accepts_base zoutput_optional
           simp del: accepts.simps(1-3) zoutput.simps(1))

lemma parse_GetProjectItems:
  assumes "parse GetProjectItemsSchema (JObject kvs) = Inr a"
  shows "a = [(''projectId'', property kvs ''projectId''),
              (''limit'', if property kvs ''limit'' = JUndefined then JNumber 20
                          else property kvs ''limit'')]"
  using parse_Inr[OF assms]
  by (auto simp: GetProjectItemsSchema_def accepts_base zoutput_optional
           simp del: accepts.simps(1-3) zoutput.simps(1))

lemma parse_CreateProject:
  assumes "parse CreateProjectSchema (JObject kvs) = Inr a"
  shows "a = [(''title'', property kvs ''title''),
              (''description'', property kvs ''description''),
              (''owner'', property kvs ''owner''),
              (''visibility'', if property kvs ''visibility'' = JUndefined
                               then JString ''PRIVATE'' else property kvs ''visibility'')]"
  using parse_Inr[OF assms]
  by (auto simp: CreateProjectSchema_def accepts_base zoutput_optional
           simp del: accepts.simps(1-3) zoutput.simps(1))

lemma parse_UpdateProjectItem:
  assumes "parse UpdateProjectItemSchema (JObject kvs) = Inr a"
  shows "a = [(''projectId'', property kvs ''projectId''), (''itemId'', property kvs ''itemId''),
              (''fieldId'', property kvs ''fieldId''), (''value'', property kvs ''value''),
              (''fieldType'', property kvs ''fieldType'')]"
  using parse_Inr[OF assms]
  by (auto simp: UpdateProjectItemSchema_def accepts_base zoutput_optional
           simp del: accepts.simps(1-3) zoutput.simps(1))

section \<open>create-project-field: the variables of the mutation\<close>

text \<open>
  C9. Whatever arguments the schema of create-project-field accepts, with or without
  \<open>options\<close>, the handler makes one request, the creation mutation, and its variables are
  exactly \<open>projectId\<close>, \<open>name\<close> and \<open>dataType\<close> as the caller gave them: \<open>options\<close> is not
  among them.
\<close>

theorem createProjectField_variables:
  assumes "parse CreateProjectFieldSchema (JObject kvs) = Inr a"
  shows "snd (createProjectField gh (JObject kvs) log) =
           log @ [Request CREATE_PROJECT_FIELD
                    [(''projectId'', Val (property kvs ''projectId'')),
                     (''name'', Val (property kvs ''name'')),
                     (''dataType'', Val (property kvs ''dataType''))]]"
proof -
  from parse_Inr[OF assms]
  have a: "a = map (\<lambda>(k, t). (k, zoutput t (property kvs k))) CreateProjectFieldSchema"
    by blast
  have p: "property a ''projectId'' = property kvs ''projectId''"
    "property a ''name'' = property kvs ''name''"
    "property a ''dataType'' = property kvs ''dataType''"
    unfolding a by (simp_all add: CreateProjectFieldSchema_def property_def)
  show ?thesis using assms
    by (simp add: createProjectField_def send_def p split: sum.splits)
qed

text \<open>A single-select field with two options: the schema accepts it, the options are not sent.\<close>

theorem createProjectField_variables_witness:
  "parse CreateProjectFieldSchema
     (JObject [(''projectId'', JString ''PVT_1''), (''name'', JString ''Priority''),
               (''dataType'', JString ''SINGLE_SELECT''),
               (''options'', JArray [JString ''High'', JString ''Low''])])
     = Inr [(''projectId'', JString ''PVT_1''), (''name'', JString ''Priority''),
            (''dataType'', JString ''SINGLE_SELECT''),
            (''options'', JArray [JString ''High'', JString ''Low''])]
   \<and> snd (createProjectField github_down
            (JObject [(''projectId'', JString ''PVT_1''), (''name'', JString ''Priority''),
                      (''dataType'', JString ''SINGLE_SELECT''),
                      (''options'', JArray [JString ''High'', JString ''Low''])]) [])
     = [Request CREATE_PROJECT_FIELD
          [(''projectId'', Val (JString ''PVT_1'')), (''name'', Val (JString ''Priority'')),
           (''dataType'', Val (JString ''SINGLE_SELECT''))]]"
proof -
  have h: "parse CreateProjectFieldSchema
     (JObject [(''projectId'', JString ''PVT_1''), (''name'', JString ''Priority''),
               (''dataType'', JString ''SINGLE_SELECT''),
               (''options'', JArray [JString ''High'', JString ''Low''])])
     = Inr [(''projectId'', JString ''PVT_1''), (''name'', JString ''Priority''),
            (''dataType'', JString ''SINGLE_SELECT''),
            (''options'', JArray [JString ''High'', JString ''Low''])]"
    by (simp add: parse_def CreateProjectFieldSchema_def object_issues_def property_def
          field_types_def)
  from createProjectField_variables[OF h, of github_down "[]"] h show ?thesis
    by (simp add: property_def)
qed

section \<open>update-project: only what the caller supplies is sent\<close>

text \<open>
  C7. For every update-project call that passes validation, the handler makes one request,
  and of \<open>title\<close>, \<open>description\<close> and \<open>visibility\<close> the variables that go over the
  wire hold exactly those the caller supplied, with the caller's values; what the caller
  left out is left out, and no variable is sent as null. (The handler passes the omitted
  ones to the client as \<open>undefined\<close>; serialisation drops them.)
\<close>

theorem updateProject_sends_supplied_fields:
  assumes "parse UpdateProjectSchema (JObject kvs) = Inr a"
  shows "\<exists>r. snd (updateProject gh (JObject kvs) log) = log @ [r] \<and>
           sent_variables r =
             (''projectId'', Val (property kvs ''projectId'')) #
             map (\<lambda>k. (k, Val (property kvs k)))
               (filter (\<lambda>k. property kvs k \<noteq> JUndefined)
                  [''title'', ''description'', ''visibility'']) \<and>
           Val JNull \<notin> snd ` set (sent_variables r)"
proof -
  note p = parse_UpdateProject[OF assms]
  have props: "property a ''projectId'' = property kvs ''projectId''"
    "property a ''title'' = property kvs ''title''"
    "property a ''description'' = property kvs ''description''"
    "property a ''visibility'' = property kvs ''visibility''"
    unfolding p(1) by (simp_all add: property_def)
  have log: "snd (updateProject gh (JObject kvs) log) =
     log @ [Request UPDATE_PROJECT
              [(''projectId'', Val (property kvs ''projectId'')),
               (''title'', Val (property kvs ''title'')),
               (''description'', Val (property kvs ''description'')),
               (''visibility'', Val (property kvs ''visibility''))]]"
    using assms by (simp add: updateProject_def send_def props split: sum.splits)
  show ?thesis
    unfolding log using p(2-5)
    by (auto simp: sent_variables_def)
qed

text \<open>Only the title is supplied: the project id and the title are sent.\<close>

theorem updateProject_sends_supplied_fields_witness:
  "\<exists>r. snd (updateProject github_down
              (JObject [(''projectId'', JString ''PVT_1''), (''title'', JString ''Q3 plan'')]) [])
         = [r] \<and>
       sent_variables r =
         [(''projectId'', Val (JString ''PVT_1'')), (''title'', Val (JString ''Q3 plan''))] \<and>
       Val JNull \<notin> snd ` set (sent_variables r)"
proof -
  have h: "parse UpdateProjectSchema
             (JObject [(''projectId'', JString ''PVT_1''), (''title'', JString ''Q3 plan'')])
           = Inr [(''projectId'', JString ''PVT_1''), (''title'', JString ''Q3 plan''),
                  (''description'', JUndefined), (''visibility'', JUndefined)]"
    by (simp add: parse_def UpdateProjectSchema_def object_issues_def property_def)
  from updateProject_sends_supplied_fields[OF h, of github_down "[]"] show ?thesis
    by (simp add: property_def)
qed

section \<open>create-issue: a failed attachment is a warning\<close>

text \<open>
  C5. A create-issue call with a project id: when the issue is created and the
  add-to-project mutation that follows throws, the tool returns the success text with the
  details of the created issue and the warning appended, not an error. (The mutation
  follows when the project id is not the empty string and the issue has a node id.)
\<close>

theorem createIssue_attach_failure_is_warning:
  assumes "parse CreateIssueSchema (JObject kvs) = Inr a"
    and "truthy (property kvs ''projectId'')"
    and "create_issue gh
           (log @ [Request issues_create
                     [(''owner'', Val (property kvs ''owner'')),
                      (''repo'', Val (property kvs ''repo'')),
                      (''title'', Val (property kvs ''title'')),
                      (''body'', Val (property kvs ''body''))]]) = Inr issue"
    and "node_id issue \<noteq> []"
    and "add_item gh
           (log @ [Request issues_create
                     [(''owner'', Val (property kvs ''owner'')),
                      (''repo'', Val (property kvs ''repo'')),
                      (''title'', Val (property kvs ''title'')),
                      (''body'', Val (property kvs ''body''))],
                   Request ADD_ITEM_TO_PROJECT
                     [(''projectId'', Val (property kvs ''projectId'')),
                      (''contentId'', Val (JString (node_id issue)))]]) = Inl msg"
  shows "createIssue gh (JObject kvs) log =
           (Inr (Text (''Issue created successfully!'' @ nl @ nl @
                       ''Title: '' @ issue_title issue @ nl @
                       ''Number: #'' @ show_int (issue_number issue) @ nl @
                       ''URL: '' @ html_url issue @ nl @
                       ''Node ID: '' @ node_id issue @ nl @ nl @
                       ''Warning: Could not add issue to project: '' @ msg)),
            log @ [Request issues_create
                     [(''owner'', Val (property kvs ''owner'')),
                      (''repo'', Val (property kvs ''repo'')),
                      (''title'', Val (property kvs ''title'')),
                      (''body'', Val (property kvs ''body''))],
                   Request ADD_ITEM_TO_PROJECT
                     [(''projectId'', Val (property kvs ''projectId'')),
                      (''contentId'', Val (JString (node_id issue)))]])"
proof -
  note p = parse_CreateIssue[OF assms(1)]
  have props: "property a ''owner'' = property kvs ''owner''"
    "property a ''repo'' = property kvs ''repo''"
    "property a ''title'' = property kvs ''title''"
    "property a ''body'' = property kvs ''body''"
    "property a ''projectId'' = property kvs ''projectId''"
    unfolding p by (simp_all add: property_def)
  show ?thesis
    using assms by (simp add: createIssue_def send_def props Let_def)
qed

theorem createIssue_attach_failure_is_warning_witness:
  "createIssue github_attach_fails
     (JObject [(''owner'', JString ''acme''), (''repo'', JString ''app''),
               (''title'', JString ''Crash on start''), (''projectId'', JString ''PVT_x'')]) []
   = (Inr (Text (''Issue created successfully!'' @ nl @ nl @
                 ''Title: Crash on start'' @ nl @
                 ''Number: #7'' @ nl @
                 ''URL: https://github.com/acme/app/issues/7'' @ nl @
                 ''Node ID: I_7'' @ nl @ nl @
                 ''Warning: Could not add issue to project: '' @
                 ''Could not resolve to a node with the global id of PVT_x'')),
      [Request issues_create
         [(''owner'', Val (JString ''acme'')), (''repo'', Val (JString ''app'')),
          (''title'', Val (JString ''Crash on start'')), (''body'', Val JUndefined)],
       Request ADD_ITEM_TO_PROJECT
         [(''projectId'', Val (JString ''PVT_x'')), (''contentId'', Val (JString ''I_7''))]])"
proof -
  have h: "parse CreateIssueSchema
             (JObject [(''owner'', JString ''acme''), (''repo'', JString ''app''),
                       (''title'', JString ''Crash on start''),
                       (''projectId'', JString ''PVT_x'')])
           = Inr [(''owner'', JString ''acme''), (''repo'', JString ''app''),
                  (''title'', JString ''Crash on start''), (''body'', JUndefined),
                  (''projectId'', JString ''PVT_x'')]"
    by (simp add: parse_def CreateIssueSchema_def object_issues_def property_def)
  show ?thesis
    using createIssue_attach_failure_is_warning[OF h, of github_attach_fails "[]"
        "\<lparr>issue_title = ''Crash on start'', issue_number = 7,
          html_url = ''https://github.com/acme/app/issues/7'', node_id = ''I_7''\<rparr>"
        "''Could not resolve to a node with the global id of PVT_x''"]
    by (simp add: property_def github_attach_fails_def github_down_def show_int_def
          show_nat.simps digit_def)
qed

section \<open>update-item-status: a status field without options\<close>

text \<open>What \<open>find_status_field\<close> finds is the first node with a status-like name.\<close>

lemma find_status_field_Some:
  "find_status_field lower nodes = Inr (Some f) \<Longrightarrow>
     \<exists>pre post n. nodes = pre @ f # post \<and> field_name f = Some n \<and> is_status_name lower n \<and>
        (\<forall>g \<in> set pre. \<exists>m. field_name g = Some m \<and> \<not> is_status_name lower m)"
proof (induction nodes)
  case Nil
  then show ?case by simp
next
  case (Cons g gs)
  show ?case
  proof (cases "field_name g")
    case None
    with Cons.prems show ?thesis by simp
  next
    case (Some m)
    show ?thesis
    proof (cases "is_status_name lower m")
      case True
      with Some Cons.prems have "f = g" by simp
      with Some True have "g # gs = [] @ f # gs \<and> field_name f = Some m \<and> is_status_name lower m \<and>
        (\<forall>g \<in> set []. \<exists>m. field_name g = Some m \<and> \<not> is_status_name lower m)" by simp
      then show ?thesis by blast
    next
      case False
      with Some Cons.prems have "find_status_field lower gs = Inr (Some f)" by simp
      from Cons.IH[OF this] obtain pre post n where
        "gs = pre @ f # post" "field_name f = Some n" "is_status_name lower n"
        "\<forall>g \<in> set pre. \<exists>m. field_name g = Some m \<and> \<not> is_status_name lower m" by blast
      with Some False have "g # gs = (g # pre) @ f # post \<and> field_name f = Some n \<and>
        is_status_name lower n \<and>
        (\<forall>g \<in> set (g # pre). \<exists>m. field_name g = Some m \<and> \<not> is_status_name lower m)" by simp
      then show ?thesis by blast
    qed
  qed
qed

text \<open>
  C10. An update-item-status call for which the first status-like field of the fetched
  project has no options list: whatever status is asked for, the call fails with the
  status-not-found error (its list of available statuses reads \<open>undefined\<close>), and the fetch
  is the only request: no update mutation is made.
\<close>

theorem updateItemStatus_without_options:
  assumes "parse UpdateItemStatusSchema (JObject kvs) = Inr a"
    and "project_details gh
           (log @ [Request GET_PROJECT_DETAILS
                     [(''projectId'', Val (property kvs ''projectId''))]])
         = Inr (Some project)"
    and "fields_nodes project = Some nodes"
    and "find_status_field (toLowerCase gh) nodes = Inr (Some statusField)"
    and "options statusField = None"
  shows "updateItemStatus gh (JObject kvs) log =
           (Inr (Text (''Error updating status: Status '' @ quote @
                       js_String (property kvs ''status'') @ quote @
                       '' not found. Available statuses: undefined'')),
            log @ [Request GET_PROJECT_DETAILS
                     [(''projectId'', Val (property kvs ''projectId''))]])"
proof -
  note p = parse_UpdateItemStatus[OF assms(1)]
  have props: "property a ''projectId'' = property kvs ''projectId''"
    "property a ''itemId'' = property kvs ''itemId''"
    "property a ''status'' = property kvs ''status''"
    unfolding p by (simp_all add: property_def)
  show ?thesis
    using assms
    by (simp add: updateItemStatus_def send_def props Let_def find_option_def option_names_def)
qed

theorem updateItemStatus_without_options_witness:
  "updateItemStatus github_text_state
     (JObject [(''projectId'', JString ''PVT_1''), (''itemId'', JString ''PVTI_1''),
               (''status'', JString ''Done'')]) []
   = (Inr (Text (''Error updating status: Status '' @ quote @ ''Done'' @ quote @
                 '' not found. Available statuses: undefined'')),
      [Request GET_PROJECT_DETAILS [(''projectId'', Val (JString ''PVT_1''))]])"
proof -
  have h: "parse UpdateItemStatusSchema
             (JObject [(''projectId'', JString ''PVT_1''), (''itemId'', JString ''PVTI_1''),
                       (''status'', JString ''Done'')])
           = Inr [(''projectId'', JString ''PVT_1''), (''itemId'', JString ''PVTI_1''),
                  (''status'', JString ''Done'')]"
    by (simp add: parse_def UpdateItemStatusSchema_def object_issues_def property_def)
  have f: "find_status_field (toLowerCase github_text_state)
             (details_fields [ProjectV2Field ''F_title'' ''Title'' ''TITLE'',
                              ProjectV2Field ''F_state'' ''State'' ''TEXT''])
           = Inr (Some \<lparr>field_id = Some ''F_state'', field_name = Some ''State'',
                        dataType = Some ''TEXT'', options = None\<rparr>)"
    by (simp add: details_fields_def is_status_name_def github_text_state_def
          github_serving_def github_down_def ascii_toLowerCase_def toLowerChar_def)
  show ?thesis
    using updateItemStatus_without_options[OF h _ _ f, where log = "[]" and project =
        "project_with_fields
           (details_fields [ProjectV2Field ''F_title'' ''Title'' ''TITLE'',
                            ProjectV2Field ''F_state'' ''State'' ''TEXT''])"]
    by (simp add: property_def github_text_state_def github_serving_def github_down_def
          project_with_fields_def)
qed

section \<open>get-project-items: the limit\<close>

text \<open>
  C8. A get-project-items call that passes validation makes exactly one request. Without a
  limit it asks for the first 20 items. With limit 0 (which the schema accepts) it asks
  for the first 0, and when GitHub answers with the project and no item, the tool returns
  the message that begins with No items found.
\<close>

theorem getProjectItems_limit:
  assumes "parse GetProjectItemsSchema (JObject kvs) = Inr a"
  shows "(property kvs ''limit'' = JUndefined \<longrightarrow>
            snd (getProjectItems gh (JObject kvs) log) =
              log @ [Request GetProjectItems
                       [(''projectId'', Val (property kvs ''projectId'')),
                        (''first'', Val (JNumber 20))]]) \<and>
         (property kvs ''limit'' = JNumber 0 \<longrightarrow>
            snd (getProjectItems gh (JObject kvs) log) =
              log @ [Request GetProjectItems
                       [(''projectId'', Val (property kvs ''projectId'')),
                        (''first'', Val (JNumber 0))]] \<and>
            (\<forall>project_title nodes.
               project_items gh
                 (log @ [Request GetProjectItems
                           [(''projectId'', Val (property kvs ''projectId'')),
                            (''first'', Val (JNumber 0))]]) = Inr (Some (project_title, nodes)) \<and>
               nodes_or_empty nodes = [] \<longrightarrow>
               fst (getProjectItems gh (JObject kvs) log) =
                 Inr (Text (''No items found in project '' @ dquote @ project_title @ dquote @
                            ''.''))))"
proof -
  note p = parse_GetProjectItems[OF assms(1)]
  have props: "property a ''projectId'' = property kvs ''projectId''"
    "property a ''limit'' = (if property kvs ''limit'' = JUndefined then JNumber 20
                             else property kvs ''limit'')"
    unfolding p by (simp_all add: property_def)
  show ?thesis
    using assms
    by (auto simp add: getProjectItems_def send_def props Let_def
             split: sum.splits option.splits)
qed

theorem getProjectItems_limit_witness:
  "getProjectItems github_no_items
     (JObject [(''projectId'', JString ''PVT_1''), (''limit'', JNumber 0)]) []
   = (Inr (Text (''No items found in project '' @ dquote @ ''Roadmap'' @ dquote @ ''.'')),
      [Request GetProjectItems
         [(''projectId'', Val (JString ''PVT_1'')), (''first'', Val (JNumber 0))]])
   \<and> snd (getProjectItems github_no_items (JObject [(''projectId'', JString ''PVT_1'')]) [])
     = [Request GetProjectItems
          [(''projectId'', Val (JString ''PVT_1'')), (''first'', Val (JNumber 20))]]"
proof -
  have h0: "parse GetProjectItemsSchema
              (JObject [(''projectId'', JString ''PVT_1''), (''limit'', JNumber 0)])
            = Inr [(''projectId'', JString ''PVT_1''), (''limit'', JNumber 0)]"
    by (simp add: parse_def GetProjectItemsSchema_def object_issues_def property_def)
  have h20: "parse GetProjectItemsSchema (JObject [(''projectId'', JString ''PVT_1'')])
             = Inr [(''projectId'', JString ''PVT_1''), (''limit'', JNumber 20)]"
    by (simp add: parse_def GetProjectItemsSchema_def object_issues_def property_def)
  have r: "project_items github_no_items
             [Request GetProjectItems
                [(''projectId'', Val (JString ''PVT_1'')), (''first'', Val (JNumber 0))]]
           = Inr (Some (''Roadmap'', Some []))"
    by (simp add: github_no_items_def github_down_def)
  from getProjectItems_limit[OF h0, of github_no_items "[]"] r
  have a: "getProjectItems github_no_items
             (JObject [(''projectId'', JString ''PVT_1''), (''limit'', JNumber 0)]) []
           = (Inr (Text (''No items found in project '' @ dquote @ ''Roadmap'' @ dquote @ ''.'')),
              [Request GetProjectItems
                 [(''projectId'', Val (JString ''PVT_1'')), (''first'', Val (JNumber 0))]])"
    by (simp add: property_def nodes_or_empty_def prod_eq_iff)
  from getProjectItems_limit[OF h20, of github_no_items "[]"]
  have b: "snd (getProjectItems github_no_items (JObject [(''projectId'', JString ''PVT_1'')]) [])
           = [Request GetProjectItems
                [(''projectId'', Val (JString ''PVT_1'')), (''first'', Val (JNumber 20))]]"
    by (simp add: property_def)
  from a b show ?thesis by simp
qed

section \<open>update-project-item: the field type that is reported\<close>

text \<open>
  C6. An update-project-item call without \<open>fieldType\<close>, for a field id that the fetched
  project does not have: the fetch succeeds, so the \<open>catch\<close> that sets \<open>TEXT\<close> is not
  reached and the detected type stays \<open>undefined\<close>. The value is sent as text by the
  default case of the switch, and the success text reports Field Type: undefined, where the
  claim (and the comment in the source, Default to TEXT if detection fails) has TEXT.
\<close>

theorem updateProjectItem_unknown_field_type_undefined:
  "updateProjectItem github_roadmap
     (JObject [(''projectId'', JString ''PVT_1''), (''itemId'', JString ''PVTI_1''),
               (''fieldId'', JString ''F_gone''), (''value'', JString ''hello'')]) []
   = (Inr (Text (''Project item field updated successfully!'' @ nl @ nl @
                 ''Item ID: PVTI_1'' @ nl @
                 ''Field Type: undefined'' @ nl @
                 ''New Value: hello'')),
      [Request GET_PROJECT_DETAILS [(''projectId'', Val (JString ''PVT_1''))],
       Request UPDATE_PROJECT_ITEM_FIELD
         [(''projectId'', Val (JString ''PVT_1'')), (''itemId'', Val (JString ''PVTI_1'')),
          (''fieldId'', Val (JString ''F_gone'')),
          (''value'', Input [(''text'', Val (JString ''hello''))])]])"
  by (simp add: updateProjectItem_def parse_def UpdateProjectItemSchema_def object_issues_def
        property_def field_types_def actualFieldType_def send_def github_roadmap_def
        github_serving_def github_down_def project_with_fields_def find_field_def
        details_fields_def roadmap_configuration_def opt_json_def formatValue_def Let_def)

text \<open>The same for every GitHub: a fetch that finds no field leaves the type undefined.\<close>

lemma actualFieldType_field_absent:
  assumes "project_details gh (log @ [Request GET_PROJECT_DETAILS [(''projectId'', Val projectId)]])
             = Inr project"
    and "find_field project fieldId = None"
  shows "actualFieldType gh projectId fieldId JUndefined log =
           (JUndefined, log @ [Request GET_PROJECT_DETAILS [(''projectId'', Val projectId)]])"
  using assms by (simp add: actualFieldType_def send_def)

section \<open>create-project: the owner id\<close>

text \<open>
  C4, as amended. For every create-project call that passes validation: the user lookup is
  the first request; the organization lookup is made exactly when the user lookup throws;
  the creation mutation is made exactly when the lookup that answered gave a non-empty id.
  Without an owner id the call fails and no creation mutation is made: with the
  owner-not-found message when the lookup that answered carried no id, and with the message
  of the organization lookup's own error when that lookup throws.
\<close>

theorem createProject_owner_resolution:
  assumes "parse CreateProjectSchema (JObject kvs) = Inr a"
  shows
    "case user_id gh (log @ [Request GET_USER_ID [(''login'', Val (property kvs ''owner''))]]) of
       Inr ownerId \<Rightarrow>
         if truthy (opt_json ownerId) then
           snd (createProject gh (JObject kvs) log) =
             log @ [Request GET_USER_ID [(''login'', Val (property kvs ''owner''))],
                    Request CREATE_PROJECT
                      [(''ownerId'', Val (opt_json ownerId)),
                       (''title'', Val (property kvs ''title'')),
                       (''description'', Val (property kvs ''description'')),
                       (''visibility'',
                        Val (if property kvs ''visibility'' = JUndefined then JString ''PRIVATE''
                             else property kvs ''visibility''))]]
         else
           createProject gh (JObject kvs) log =
             (Inr (Text (''Error creating project: Owner '' @ quote @
                         js_String (property kvs ''owner'') @ quote @ '' not found'')),
              log @ [Request GET_USER_ID [(''login'', Val (property kvs ''owner''))]])
     | Inl user_error \<Rightarrow>
         (case org_id gh
                 (log @ [Request GET_USER_ID [(''login'', Val (property kvs ''owner''))],
                         Request GET_ORG_ID [(''login'', Val (property kvs ''owner''))]]) of
            Inr ownerId \<Rightarrow>
              if truthy (opt_json ownerId) then
                snd (createProject gh (JObject kvs) log) =
                  log @ [Request GET_USER_ID [(''login'', Val (property kvs ''owner''))],
                         Request GET_ORG_ID [(''login'', Val (property kvs ''owner''))],
                         Request CREATE_PROJECT
                           [(''ownerId'', Val (opt_json ownerId)),
                            (''title'', Val (property kvs ''title'')),
                            (''description'', Val (property kvs ''description'')),
                            (''visibility'',
                             Val (if property kvs ''visibility'' = JUndefined
                                  then JString ''PRIVATE'' else property kvs ''visibility''))]]
              else
                createProject gh (JObject kvs) log =
                  (Inr (Text (''Error creating project: Owner '' @ quote @
                              js_String (property kvs ''owner'') @ quote @ '' not found'')),
                   log @ [Request GET_USER_ID [(''login'', Val (property kvs ''owner''))],
                          Request GET_ORG_ID [(''login'', Val (property kvs ''owner''))]])
          | Inl org_error \<Rightarrow>
              createProject gh (JObject kvs) log =
                (Inr (Text (''Error creating project: '' @ org_error)),
                 log @ [Request GET_USER_ID [(''login'', Val (property kvs ''owner''))],
                        Request GET_ORG_ID [(''login'', Val (property kvs ''owner''))]]))"
proof -
  note p = parse_CreateProject[OF assms]
  have props: "property a ''title'' = property kvs ''title''"
    "property a ''description'' = property kvs ''description''"
    "property a ''owner'' = property kvs ''owner''"
    "property a ''visibility'' = (if property kvs ''visibility'' = JUndefined
                               then JString ''PRIVATE'' else property kvs ''visibility'')"
    unfolding p by (simp_all add: property_def)
  show ?thesis
    using assms
    by (simp add: createProject_def resolveOwnerId_def send_def props
             split: sum.splits)
qed

theorem createProject_owner_resolution_witness:
  "snd (createProject github_org_only
          (JObject [(''title'', JString ''Sprint Planning''), (''owner'', JString ''acme-corp'')])
          [])
   = [Request GET_USER_ID [(''login'', Val (JString ''acme-corp''))],
      Request GET_ORG_ID [(''login'', Val (JString ''acme-corp''))],
      Request CREATE_PROJECT
        [(''ownerId'', Val (JString ''O_acme'')), (''title'', Val (JString ''Sprint Planning'')),
         (''description'', Val JUndefined), (''visibility'', Val (JString ''PRIVATE''))]]
   \<and> createProject github_no_user
         (JObject [(''title'', JString ''Sprint Planning''), (''owner'', JString ''acme-corp'')])
         []
     = (Inr (Text (''Error creating project: Owner '' @ quote @ ''acme-corp'' @ quote @
                   '' not found'')),
        [Request GET_USER_ID [(''login'', Val (JString ''acme-corp''))]])"
proof -
  have h: "parse CreateProjectSchema
             (JObject [(''title'', JString ''Sprint Planning''),
                       (''owner'', JString ''acme-corp'')])
           = Inr [(''title'', JString ''Sprint Planning''), (''description'', JUndefined),
                  (''owner'', JString ''acme-corp''), (''visibility'', JString ''PRIVATE'')]"
    by (simp add: parse_def CreateProjectSchema_def object_issues_def property_def)
  from createProject_owner_resolution[OF h, of github_org_only "[]"]
  have a: "snd (createProject github_org_only
          (JObject [(''title'', JString ''Sprint Planning''), (''owner'', JString ''acme-corp'')])
          [])
   = [Request GET_USER_ID [(''login'', Val (JString ''acme-corp''))],
      Request GET_ORG_ID [(''login'', Val (JString ''acme-corp''))],
      Request CREATE_PROJECT
        [(''ownerId'', Val (JString ''O_acme'')), (''title'', Val (JString ''Sprint Planning'')),
         (''description'', Val JUndefined), (''visibility'', Val (JString ''PRIVATE''))]]"
    by (simp add: property_def github_org_only_def github_down_def opt_json_def)
  from createProject_owner_resolution[OF h, of github_no_user "[]"]
  have b: "createProject github_no_user
         (JObject [(''title'', JString ''Sprint Planning''), (''owner'', JString ''acme-corp'')])
         []
     = (Inr (Text (''Error creating project: Owner '' @ quote @ ''acme-corp'' @ quote @
                   '' not found'')),
        [Request GET_USER_ID [(''login'', Val (JString ''acme-corp''))]])"
    by (simp add: property_def github_no_user_def github_down_def opt_json_def)
  from a b show ?thesis by simp
qed

text \<open>
  The claim as stated fails when both lookups throw: the text is the error of the
  organization lookup, not the owner-not-found message.
\<close>

theorem createProject_lookups_throw:
  "createProject github_down
     (JObject [(''title'', JString ''Sprint Planning''), (''owner'', JString ''acme-corp'')]) []
   = (Inr (Text ''Error creating project: Service unavailable''),
      [Request GET_USER_ID [(''login'', Val (JString ''acme-corp''))],
       Request GET_ORG_ID [(''login'', Val (JString ''acme-corp''))]])"
  by (simp add: createProject_def parse_def CreateProjectSchema_def object_issues_def
        property_def resolveOwnerId_def send_def github_down_def)

section \<open>update-item-status: the field that is chosen\<close>

lemma details_field_name:
  "\<not> is_iteration f \<Longrightarrow> field_name (details_field f) = Some (configuration_name f)"
  by (cases f) auto

lemma details_field_iteration: "is_iteration f \<Longrightarrow> field_name (details_field f) = None"
  by (cases f) auto

text \<open>
  The scan over the nodes of the details query, in terms of the fields of the project: it
  stops at the first field that is an iteration field (whose node has no name) or has a
  status-like name.
\<close>

lemma find_status_field_details:
  "find_status_field lower (map details_field fs) =
     (case find (\<lambda>f. is_iteration f \<or> is_status_name lower (configuration_name f)) fs of
        None \<Rightarrow> Inr None
      | Some f \<Rightarrow>
          if is_iteration f
          then Inl (''Cannot read properties of undefined (reading '' @ quote @
                    ''toLowerCase'' @ quote @ '')'')
          else Inr (Some (details_field f)))"
proof (induction fs)
  case Nil
  then show ?case by simp
next
  case (Cons f fs)
  then show ?case
    by (cases "is_iteration f") (simp_all add: details_field_name details_field_iteration)
qed

lemma reaches_iteration_Nil: "\<not> reaches_iteration lower []"
  by (simp add: reaches_iteration_def)

lemma reaches_iteration_Cons:
  "reaches_iteration lower (f # fs) =
     (if is_iteration f then True
      else if is_status_name lower (configuration_name f) then False
      else reaches_iteration lower fs)"
  by (simp add: reaches_iteration_def)

lemma no_iteration_reached_find:
  "\<not> reaches_iteration lower fs \<Longrightarrow>
     find (\<lambda>f. is_iteration f \<or> is_status_name lower (configuration_name f)) fs
       = find (\<lambda>f. is_status_name lower (configuration_name f)) fs"
proof (induction fs)
  case Nil
  then show ?case by simp
next
  case (Cons f fs)
  then show ?case
    by (cases "is_iteration f"; cases "is_status_name lower (configuration_name f)")
       (simp_all add: reaches_iteration_Cons)
qed

lemma no_iteration_reached_None:
  "\<not> reaches_iteration lower fs \<Longrightarrow>
   find (\<lambda>f. is_status_name lower (configuration_name f)) fs = None \<Longrightarrow>
     \<forall>f \<in> set fs. \<not> is_iteration f"
proof (induction fs)
  case Nil
  then show ?case by simp
next
  case (Cons f fs)
  then show ?case
    by (cases "is_iteration f"; cases "is_status_name lower (configuration_name f)")
       (simp_all add: reaches_iteration_Cons)
qed

lemma no_iteration_reached_Some:
  "\<not> reaches_iteration lower fs \<Longrightarrow>
   find (\<lambda>f. is_status_name lower (configuration_name f)) fs = Some g \<Longrightarrow>
     \<not> is_iteration g"
proof (induction fs)
  case Nil
  then show ?case by simp
next
  case (Cons f fs)
  then show ?case
    by (cases "is_iteration f"; cases "is_status_name lower (configuration_name f)")
       (simp_all add: reaches_iteration_Cons)
qed

lemma field_names_details:
  "\<forall>f \<in> set fs. \<not> is_iteration f \<Longrightarrow>
     map (\<lambda>f. case field_name f of None \<Rightarrow> [] | Some n \<Rightarrow> n) (map details_field fs)
       = map configuration_name fs"
  by (induction fs) (auto simp: details_field_name)

text \<open>
  C3, as amended. For every update-item-status call that passes validation, when GitHub
  answers the details query for a project with the fields \<open>fs\<close>: the field chosen is the
  first of the first twenty fields of the project whose name contains status, state or
  column in any case, and the update mutation, when one is made, carries the id of that
  field. When none of the first twenty matches, the call fails with the error that lists
  the names of those twenty fields, and no update mutation is made. Fields after the
  twentieth are never looked at: the query asks for \<open>fields(first: 20)\<close>. The scan stops
  at the field it chooses, so an iteration field after it does not matter; what is left
  out is only a scan that comes to an iteration field (\<open>reaches_iteration\<close>).
\<close>

theorem updateItemStatus_field_choice:
  assumes "parse UpdateItemStatusSchema (JObject kvs) = Inr a"
    and "project_details gh
           (log @ [Request GET_PROJECT_DETAILS
                     [(''projectId'', Val (property kvs ''projectId''))]])
         = Inr (Some project)"
    and "fields_nodes project = Some (details_fields fs)"
    and "\<not> reaches_iteration (toLowerCase gh) (take 20 fs)"
  shows
    "case find (\<lambda>f. is_status_name (toLowerCase gh) (configuration_name f)) (take 20 fs) of
       None \<Rightarrow>
         updateItemStatus gh (JObject kvs) log =
           (Inr (Text (''Error updating status: No status field found. Available fields: '' @
                       (if join '', '' (map configuration_name (take 20 fs)) = [] then ''none''
                        else join '', '' (map configuration_name (take 20 fs))))),
            log @ [Request GET_PROJECT_DETAILS
                     [(''projectId'', Val (property kvs ''projectId''))]])
     | Some f \<Rightarrow>
         (case find_option (toLowerCase gh) (options (details_field f))
                 (js_String (property kvs ''status'')) of
            None \<Rightarrow>
              updateItemStatus gh (JObject kvs) log =
                (Inr (Text (''Error updating status: Status '' @ quote @
                            js_String (property kvs ''status'') @ quote @
                            '' not found. Available statuses: '' @
                            option_names (options (details_field f)))),
                 log @ [Request GET_PROJECT_DETAILS
                          [(''projectId'', Val (property kvs ''projectId''))]])
          | Some opt \<Rightarrow>
              snd (updateItemStatus gh (JObject kvs) log) =
                log @ [Request GET_PROJECT_DETAILS
                         [(''projectId'', Val (property kvs ''projectId''))],
                       Request UPDATE_PROJECT_ITEM_FIELD
                         [(''projectId'', Val (property kvs ''projectId'')),
                          (''itemId'', Val (property kvs ''itemId'')),
                          (''fieldId'', Val (opt_json (field_id (details_field f)))),
                          (''value'', Input [(''singleSelectOptionId'',
                                             Val (JString (option_id opt)))])]])"
proof -
  note p = parse_UpdateItemStatus[OF assms(1)]
  have props: "property a ''projectId'' = property kvs ''projectId''"
    "property a ''itemId'' = property kvs ''itemId''"
    "property a ''status'' = property kvs ''status''"
    unfolding p by (simp_all add: property_def)
  note n = no_iteration_reached_find[OF assms(4)]
  show ?thesis
  proof (cases "find (\<lambda>f. is_status_name (toLowerCase gh) (configuration_name f)) (take 20 fs)")
    case None
    have fsf: "find_status_field (toLowerCase gh) (details_fields fs) = Inr None"
      unfolding details_fields_def find_status_field_details n None by simp
    have names: "map (\<lambda>f. case field_name f of None \<Rightarrow> [] | Some n \<Rightarrow> n) (details_fields fs)
                   = map configuration_name (take 20 fs)"
      unfolding details_fields_def
      by (rule field_names_details[OF no_iteration_reached_None[OF assms(4) None]])
    have av: "available_fields project =
      (if join '', '' (map configuration_name (take 20 fs)) = [] then ''none''
       else join '', '' (map configuration_name (take 20 fs)))"
      by (simp add: available_fields_def assms(3) names Let_def)
    show ?thesis
      using assms(1-3) None
      by (simp add: updateItemStatus_def send_def props Let_def fsf av)
  next
    case (Some f)
    have fsf: "find_status_field (toLowerCase gh) (details_fields fs)
                 = Inr (Some (details_field f))"
      unfolding details_fields_def find_status_field_details n Some
      using no_iteration_reached_Some[OF assms(4) Some] by simp
    show ?thesis
      using assms(1-3) Some
      by (simp add: updateItemStatus_def send_def props Let_def fsf
            split: option.splits sum.splits)
  qed
qed

theorem updateItemStatus_field_choice_witness:
  "snd (updateItemStatus github_sprint
          (JObject [(''projectId'', JString ''PVT_1''), (''itemId'', JString ''PVTI_1''),
                    (''status'', JString ''done'')]) [])
   = [Request GET_PROJECT_DETAILS [(''projectId'', Val (JString ''PVT_1''))],
      Request UPDATE_PROJECT_ITEM_FIELD
        [(''projectId'', Val (JString ''PVT_1'')), (''itemId'', Val (JString ''PVTI_1'')),
         (''fieldId'', Val (JString ''F_status'')),
         (''value'', Input [(''singleSelectOptionId'', Val (JString ''O_done''))])]]"
proof -
  have h: "parse UpdateItemStatusSchema
             (JObject [(''projectId'', JString ''PVT_1''), (''itemId'', JString ''PVTI_1''),
                       (''status'', JString ''done'')])
           = Inr [(''projectId'', JString ''PVT_1''), (''itemId'', JString ''PVTI_1''),
                  (''status'', JString ''done'')]"
    by (simp add: parse_def UpdateItemStatusSchema_def object_issues_def property_def)
  have d: "project_details github_sprint lg
             = Inr (Some (project_with_fields (details_fields sprint_configuration)))" for lg
    by (simp add: github_sprint_def github_serving_def github_down_def)
  have f: "fields_nodes (project_with_fields (details_fields sprint_configuration))
             = Some (details_fields sprint_configuration)"
    by (simp add: project_with_fields_def)
  have l: "toLowerCase github_sprint = ascii_toLowerCase"
    by (simp add: github_sprint_def github_serving_def github_down_def)
  have n: "\<not> reaches_iteration (toLowerCase github_sprint) (take 20 sprint_configuration)"
    by (simp add: l reaches_iteration_def sprint_configuration_def is_status_name_def
          ascii_toLowerCase_def toLowerChar_def)
  have c: "find (\<lambda>f. is_status_name ascii_toLowerCase (configuration_name f))
             (take 20 sprint_configuration)
           = Some (ProjectV2SingleSelectField ''F_status'' ''Status'' ''SINGLE_SELECT''
                     [\<lparr>option_id = ''O_todo'', option_name = ''Todo''\<rparr>,
                      \<lparr>option_id = ''O_done'', option_name = ''Done''\<rparr>])"
    by (simp add: sprint_configuration_def is_status_name_def ascii_toLowerCase_def
          toLowerChar_def)
  from updateItemStatus_field_choice[OF h d f n, of "[]"]
  show ?thesis
    by (simp add: l c property_def find_option_def ascii_toLowerCase_def toLowerChar_def
          opt_json_def)
qed

text \<open>
  The case that the theorem leaves out: when the scan comes to an iteration field, reading
  the name of its node throws, and the call fails without an update mutation.
\<close>

lemma updateItemStatus_iteration_reached:
  assumes "parse UpdateItemStatusSchema (JObject kvs) = Inr a"
    and "project_details gh
           (log @ [Request GET_PROJECT_DETAILS
                     [(''projectId'', Val (property kvs ''projectId''))]])
         = Inr (Some project)"
    and "fields_nodes project = Some (details_fields fs)"
    and "reaches_iteration (toLowerCase gh) (take 20 fs)"
  shows "updateItemStatus gh (JObject kvs) log =
           (Inr (Text (''Error updating status: Cannot read properties of undefined '' @
                       ''(reading '' @ quote @ ''toLowerCase'' @ quote @ '')'')),
            log @ [Request GET_PROJECT_DETAILS
                     [(''projectId'', Val (property kvs ''projectId''))]])"
proof -
  note p = parse_UpdateItemStatus[OF assms(1)]
  have props: "property a ''projectId'' = property kvs ''projectId''"
    "property a ''itemId'' = property kvs ''itemId''"
    "property a ''status'' = property kvs ''status''"
    unfolding p by (simp_all add: property_def)
  have fsf: "find_status_field (toLowerCase gh) (details_fields fs)
               = Inl (''Cannot read properties of undefined (reading '' @ quote @
                      ''toLowerCase'' @ quote @ '')'')"
  proof (cases "find (\<lambda>f. is_iteration f \<or>
                             is_status_name (toLowerCase gh) (configuration_name f))
                  (take 20 fs)")
    case None
    with assms(4) show ?thesis by (simp add: reaches_iteration_def)
  next
    case (Some f)
    with assms(4) have "is_iteration f" by (simp add: reaches_iteration_def)
    with Some show ?thesis
      unfolding details_fields_def find_status_field_details by simp
  qed
  show ?thesis
    using assms(1-3)
    by (simp add: updateItemStatus_def send_def props Let_def fsf)
qed

text \<open>
  The claim as stated fails on a project whose status field is its twenty-first field:
  the field is not found, and the error lists twenty of the twenty-one names.
\<close>

lemma wide_no_status:
  "find_status_field ascii_toLowerCase (details_fields wide_configuration) = Inr None"
  by code_simp

lemma wide_names: "available_fields (project_with_fields (details_fields wide_configuration)) =
   ''Title, Assignees, Labels, Linked pull requests, Milestone, Repository, '' @
   ''Reviewers, Parent issue, Sub-issues progress, Estimate, Start date, '' @
   ''Target date, Team, Area, Notes, Owner, Effort, Risk, Customer, Release''"
  by code_simp

theorem updateItemStatus_twenty_first_field:
  "updateItemStatus github_wide
     (JObject [(''projectId'', JString ''PVT_1''), (''itemId'', JString ''PVTI_1''),
               (''status'', JString ''Done'')]) []
   = (Inr (Text (''Error updating status: No status field found. Available fields: '' @
                 ''Title, Assignees, Labels, Linked pull requests, Milestone, Repository, '' @
                 ''Reviewers, Parent issue, Sub-issues progress, Estimate, Start date, '' @
                 ''Target date, Team, Area, Notes, Owner, Effort, Risk, Customer, Release'')),
      [Request GET_PROJECT_DETAILS [(''projectId'', Val (JString ''PVT_1''))]])"
proof -
  have p: "parse UpdateItemStatusSchema
             (JObject [(''projectId'', JString ''PVT_1''), (''itemId'', JString ''PVTI_1''),
                       (''status'', JString ''Done'')])
           = Inr [(''projectId'', JString ''PVT_1''), (''itemId'', JString ''PVTI_1''),
                  (''status'', JString ''Done'')]"
    by (simp add: parse_def UpdateItemStatusSchema_def object_issues_def property_def)
  have d: "project_details github_wide lg
             = Inr (Some (project_with_fields (details_fields wide_configuration)))" for lg
    by (simp add: github_wide_def github_serving_def github_down_def)
  have f: "fields_nodes (project_with_fields (details_fields wide_configuration))
             = Some (details_fields wide_configuration)"
    by (simp add: project_with_fields_def)
  have l: "toLowerCase github_wide = ascii_toLowerCase"
    by (simp add: github_wide_def github_serving_def github_down_def)
  show ?thesis
    by (simp add: updateItemStatus_def p send_def property_def d f l wide_no_status wide_names)
qed

text \<open>An iteration field before the status field: the scan throws at it.\<close>

lemma updateItemStatus_sprint_first:
  "updateItemStatus github_sprint_first
     (JObject [(''projectId'', JString ''PVT_1''), (''itemId'', JString ''PVTI_1''),
               (''status'', JString ''Done'')]) []
   = (Inr (Text (''Error updating status: Cannot read properties of undefined '' @
                 ''(reading '' @ quote @ ''toLowerCase'' @ quote @ '')'')),
      [Request GET_PROJECT_DETAILS [(''projectId'', Val (JString ''PVT_1''))]])"
  by (simp add: updateItemStatus_def parse_def UpdateItemStatusSchema_def object_issues_def
        property_def send_def github_sprint_first_def github_serving_def github_down_def
        project_with_fields_def details_fields_def)

section \<open>update-project-item: single-select values\<close>

lemma find_map_fields: "find P (map g xs) = map_option g (find (\<lambda>x. P (g x)) xs)"
  by (induction xs) simp_all

text \<open>
  C2, as amended. An update-project-item call whose field type is \<open>SINGLE_SELECT\<close> (given
  by the caller or detected), when GitHub answers the details query for a project with the
  fields \<open>fs\<close>: the field is looked up by its id among the first twenty fields of the
  project. When it is there with its options: if the name of an option equals the value
  in lower case, the update mutation carries the id of the first such option; otherwise
  the call fails with the error that lists the names of all the options of the field, and
  no update mutation is made. When it is not there (it comes after the twentieth field, or
  the node has no options), the call fails, the error has \<open>undefined\<close> for the option
  names, and no update mutation is made, whether or not an option would match.
\<close>

theorem updateProjectItem_single_select:
  assumes "parse UpdateProjectItemSchema (JObject kvs) = Inr a"
    and "actualFieldType gh (property kvs ''projectId'') (property kvs ''fieldId'')
           (property kvs ''fieldType'') log = (JString ''SINGLE_SELECT'', log')"
    and "project_details gh
           (log' @ [Request GET_PROJECT_DETAILS
                      [(''projectId'', Val (property kvs ''projectId''))]])
         = Inr (Some project)"
    and "fields_nodes project = Some (details_fields fs)"
  shows
    "(log' = log \<or>
      log' = log @ [Request GET_PROJECT_DETAILS
                      [(''projectId'', Val (property kvs ''projectId''))]]) \<and>
     (case (case find (\<lambda>f. opt_json (field_id (details_field f)) = property kvs ''fieldId'')
                   (take 20 fs) of
              None \<Rightarrow> None
            | Some f \<Rightarrow> options (details_field f)) of
        Some opts \<Rightarrow>
          (case find (\<lambda>opt. toLowerCase gh (option_name opt)
                             = toLowerCase gh (js_String (property kvs ''value''))) opts of
             Some opt \<Rightarrow>
               opt \<in> set opts \<and>
               toLowerCase gh (option_name opt)
                 = toLowerCase gh (js_String (property kvs ''value'')) \<and>
               snd (updateProjectItem gh (JObject kvs) log) =
                 log' @ [Request GET_PROJECT_DETAILS
                           [(''projectId'', Val (property kvs ''projectId''))],
                         Request UPDATE_PROJECT_ITEM_FIELD
                           [(''projectId'', Val (property kvs ''projectId'')),
                            (''itemId'', Val (property kvs ''itemId'')),
                            (''fieldId'', Val (property kvs ''fieldId'')),
                            (''value'', Input [(''singleSelectOptionId'',
                                               Val (JString (option_id opt)))])]]
           | None \<Rightarrow>
               updateProjectItem gh (JObject kvs) log =
                 (Inr (Text (''Error updating project item: '' @
                             ''Failed to find single select option: '' @
                             ''Option '' @ quote @ js_String (property kvs ''value'') @ quote @
                             '' not found for field. Available options: '' @
                             join '', '' (map option_name opts))),
                  log' @ [Request GET_PROJECT_DETAILS
                            [(''projectId'', Val (property kvs ''projectId''))]]))
      | None \<Rightarrow>
          updateProjectItem gh (JObject kvs) log =
            (Inr (Text (''Error updating project item: '' @
                        ''Failed to find single select option: '' @
                        ''Option '' @ quote @ js_String (property kvs ''value'') @ quote @
                        '' not found for field. Available options: undefined'')),
             log' @ [Request GET_PROJECT_DETAILS
                       [(''projectId'', Val (property kvs ''projectId''))]]))"
proof -
  note p = parse_UpdateProjectItem[OF assms(1)]
  have props: "property a ''projectId'' = property kvs ''projectId''"
    "property a ''itemId'' = property kvs ''itemId''"
    "property a ''fieldId'' = property kvs ''fieldId''"
    "property a ''value'' = property kvs ''value''"
    "property a ''fieldType'' = property kvs ''fieldType''"
    unfolding p by (simp_all add: property_def)
  have log': "log' = log \<or>
      log' = log @ [Request GET_PROJECT_DETAILS
                      [(''projectId'', Val (property kvs ''projectId''))]]"
    using assms(2)
    by (auto simp: actualFieldType_def send_def split: if_splits sum.splits)
  define found where
    "found = (case find (\<lambda>f. opt_json (field_id (details_field f)) = property kvs ''fieldId'')
                     (take 20 fs) of
                None \<Rightarrow> None
              | Some f \<Rightarrow> options (details_field f))"
  have ff: "(case find_field (Some project) (property kvs ''fieldId'') of
               None \<Rightarrow> None
             | Some field \<Rightarrow> options field) = found"
    unfolding found_def
    by (simp add: find_field_def assms(4) details_fields_def find_map_fields
          split: option.splits)
  have run: "updateProjectItem gh (JObject kvs) log =
     (case find_option (toLowerCase gh) found (js_String (property kvs ''value'')) of
        Some opt \<Rightarrow>
          (case update_item_field gh
                  (log' @ [Request GET_PROJECT_DETAILS
                             [(''projectId'', Val (property kvs ''projectId''))],
                           Request UPDATE_PROJECT_ITEM_FIELD
                             [(''projectId'', Val (property kvs ''projectId'')),
                              (''itemId'', Val (property kvs ''itemId'')),
                              (''fieldId'', Val (property kvs ''fieldId'')),
                              (''value'', Input [(''singleSelectOptionId'',
                                                 Val (JString (option_id opt)))])]]) of
             Inl msg \<Rightarrow> Inr (Text (''Error updating project item: '' @ msg))
           | Inr item \<Rightarrow>
               Inr (Text (''Project item field updated successfully!'' @ nl @ nl @
                          ''Item ID: '' @ item @ nl @
                          ''Field Type: SINGLE_SELECT'' @ nl @
                          ''New Value: '' @ js_String (property kvs ''value''))),
           log' @ [Request GET_PROJECT_DETAILS
                     [(''projectId'', Val (property kvs ''projectId''))],
                   Request UPDATE_PROJECT_ITEM_FIELD
                     [(''projectId'', Val (property kvs ''projectId'')),
                      (''itemId'', Val (property kvs ''itemId'')),
                      (''fieldId'', Val (property kvs ''fieldId'')),
                      (''value'', Input [(''singleSelectOptionId'',
                                         Val (JString (option_id opt)))])]])
      | None \<Rightarrow>
          (Inr (Text (''Error updating project item: '' @
                      ''Failed to find single select option: '' @
                      ''Option '' @ quote @ js_String (property kvs ''value'') @ quote @
                      '' not found for field. Available options: '' @ option_names found)),
           log' @ [Request GET_PROJECT_DETAILS
                     [(''projectId'', Val (property kvs ''projectId''))]]))"
    using assms(1-3)
    by (simp add: updateProjectItem_def props Let_def formatValue_def singleSelectValue_def
          send_def ff split: option.splits sum.splits)
  show ?thesis
  proof (cases found)
    case None
    then show ?thesis
      using log' unfolding found_def[symmetric] run
      by (simp add: find_option_def option_names_def)
  next
    case (Some opts)
    show ?thesis
    proof (cases "find (\<lambda>opt. toLowerCase gh (option_name opt)
                             = toLowerCase gh (js_String (property kvs ''value''))) opts")
      case None
      then show ?thesis
        using log' Some unfolding found_def[symmetric] run
        by (simp add: find_option_def option_names_def)
    next
      case (Some opt)
      then have "opt \<in> set opts \<and>
         toLowerCase gh (option_name opt) = toLowerCase gh (js_String (property kvs ''value''))"
        by (auto simp: find_Some_iff)
      then show ?thesis
        using log' \<open>found = Some opts\<close> Some unfolding found_def[symmetric] run
        by (simp add: find_option_def option_names_def split: sum.splits)
    qed
  qed
qed

text \<open>
  A matching value, a value that matches no option, and a matching value with the field
  type left out, so that it is detected by a first fetch.
\<close>

theorem updateProjectItem_single_select_witness:
  "snd (updateProjectItem github_roadmap
     (JObject [(''projectId'', JString ''PVT_1''), (''itemId'', JString ''PVTI_1''),
               (''fieldId'', JString ''F_status''), (''value'', JString ''done''),
               (''fieldType'', JString ''SINGLE_SELECT'')]) [])
   = [Request GET_PROJECT_DETAILS [(''projectId'', Val (JString ''PVT_1''))],
      Request UPDATE_PROJECT_ITEM_FIELD
        [(''projectId'', Val (JString ''PVT_1'')), (''itemId'', Val (JString ''PVTI_1'')),
         (''fieldId'', Val (JString ''F_status'')),
         (''value'', Input [(''singleSelectOptionId'', Val (JString ''O_done''))])]]
   \<and> updateProjectItem github_roadmap
     (JObject [(''projectId'', JString ''PVT_1''), (''itemId'', JString ''PVTI_1''),
               (''fieldId'', JString ''F_status''), (''value'', JString ''Blocked''),
               (''fieldType'', JString ''SINGLE_SELECT'')]) []
   = (Inr (Text (''Error updating project item: Failed to find single select option: '' @
                 ''Option '' @ quote @ ''Blocked'' @ quote @
                 '' not found for field. Available options: Todo, In Progress, Done'')),
      [Request GET_PROJECT_DETAILS [(''projectId'', Val (JString ''PVT_1''))]])
   \<and> snd (updateProjectItem github_roadmap
     (JObject [(''projectId'', JString ''PVT_1''), (''itemId'', JString ''PVTI_1''),
               (''fieldId'', JString ''F_status''), (''value'', JString ''TODO'')]) [])
   = [Request GET_PROJECT_DETAILS [(''projectId'', Val (JString ''PVT_1''))],
      Request GET_PROJECT_DETAILS [(''projectId'', Val (JString ''PVT_1''))],
      Request UPDATE_PROJECT_ITEM_FIELD
        [(''projectId'', Val (JString ''PVT_1'')), (''itemId'', Val (JString ''PVTI_1'')),
         (''fieldId'', Val (JString ''F_status'')),
         (''value'', Input [(''singleSelectOptionId'', Val (JString ''O_todo''))])]]"
proof -
  have h: "parse UpdateProjectItemSchema
     (JObject [(''projectId'', JString ''PVT_1''), (''itemId'', JString ''PVTI_1''),
               (''fieldId'', JString ''F_status''), (''value'', JString v),
               (''fieldType'', JString ''SINGLE_SELECT'')])
     = Inr [(''projectId'', JString ''PVT_1''), (''itemId'', JString ''PVTI_1''),
            (''fieldId'', JString ''F_status''), (''value'', JString v),
            (''fieldType'', JString ''SINGLE_SELECT'')]" for v
    by (simp add: parse_def UpdateProjectItemSchema_def object_issues_def property_def
          field_types_def)
  have h': "parse UpdateProjectItemSchema
     (JObject [(''projectId'', JString ''PVT_1''), (''itemId'', JString ''PVTI_1''),
               (''fieldId'', JString ''F_status''), (''value'', JString ''TODO'')])
     = Inr [(''projectId'', JString ''PVT_1''), (''itemId'', JString ''PVTI_1''),
            (''fieldId'', JString ''F_status''), (''value'', JString ''TODO''),
            (''fieldType'', JUndefined)]"
    by (simp add: parse_def UpdateProjectItemSchema_def object_issues_def property_def
          field_types_def)
  have d: "project_details github_roadmap lg
             = Inr (Some (project_with_fields (details_fields roadmap_configuration)))" for lg
    by (simp add: github_roadmap_def github_serving_def github_down_def)
  have l: "toLowerCase github_roadmap = ascii_toLowerCase"
    by (simp add: github_roadmap_def github_serving_def github_down_def)
  have f: "fields_nodes (project_with_fields (details_fields roadmap_configuration))
             = Some (details_fields roadmap_configuration)"
    by (simp add: project_with_fields_def)
  have t: "actualFieldType github_roadmap (JString ''PVT_1'') (JString ''F_status'')
             (JString ''SINGLE_SELECT'') [] = (JString ''SINGLE_SELECT'', [])"
    by (simp add: actualFieldType_def)
  have t': "actualFieldType github_roadmap (JString ''PVT_1'') (JString ''F_status'')
             JUndefined []
            = (JString ''SINGLE_SELECT'',
               [Request GET_PROJECT_DETAILS [(''projectId'', Val (JString ''PVT_1''))]])"
    by (simp add: actualFieldType_def send_def d find_field_def project_with_fields_def
          details_fields_def roadmap_configuration_def opt_json_def)
  have c: "find (\<lambda>f. opt_json (field_id (details_field f)) = JString ''F_status'')
             (take 20 roadmap_configuration)
           = Some (ProjectV2SingleSelectField ''F_status'' ''Status'' ''SINGLE_SELECT''
                     [\<lparr>option_id = ''O_todo'', option_name = ''Todo''\<rparr>,
                      \<lparr>option_id = ''O_doing'', option_name = ''In Progress''\<rparr>,
                      \<lparr>option_id = ''O_done'', option_name = ''Done''\<rparr>])"
    by (simp add: roadmap_configuration_def opt_json_def)
  have a: "snd (updateProjectItem github_roadmap
     (JObject [(''projectId'', JString ''PVT_1''), (''itemId'', JString ''PVTI_1''),
               (''fieldId'', JString ''F_status''), (''value'', JString ''done''),
               (''fieldType'', JString ''SINGLE_SELECT'')]) [])
   = [Request GET_PROJECT_DETAILS [(''projectId'', Val (JString ''PVT_1''))],
      Request UPDATE_PROJECT_ITEM_FIELD
        [(''projectId'', Val (JString ''PVT_1'')), (''itemId'', Val (JString ''PVTI_1'')),
         (''fieldId'', Val (JString ''F_status'')),
         (''value'', Input [(''singleSelectOptionId'', Val (JString ''O_done''))])]]"
    using updateProjectItem_single_select[OF h[of "''done''"], where gh = github_roadmap
        and log = "[]" and log' = "[]" and fs = roadmap_configuration
        and project = "project_with_fields (details_fields roadmap_configuration)"]
    by (simp add: property_def t d f l c ascii_toLowerCase_def toLowerChar_def)
  have b: "updateProjectItem github_roadmap
     (JObject [(''projectId'', JString ''PVT_1''), (''itemId'', JString ''PVTI_1''),
               (''fieldId'', JString ''F_status''), (''value'', JString ''Blocked''),
               (''fieldType'', JString ''SINGLE_SELECT'')]) []
   = (Inr (Text (''Error updating project item: Failed to find single select option: '' @
                 ''Option '' @ quote @ ''Blocked'' @ quote @
                 '' not found for field. Available options: Todo, In Progress, Done'')),
      [Request GET_PROJECT_DETAILS [(''projectId'', Val (JString ''PVT_1''))]])"
    using updateProjectItem_single_select[OF h[of "''Blocked''"], where gh = github_roadmap
        and log = "[]" and log' = "[]" and fs = roadmap_configuration
        and project = "project_with_fields (details_fields roadmap_configuration)"]
    by (simp add: property_def t d f l c ascii_toLowerCase_def toLowerChar_def)
  have e: "snd (updateProjectItem github_roadmap
     (JObject [(''projectId'', JString ''PVT_1''), (''itemId'', JString ''PVTI_1''),
               (''fieldId'', JString ''F_status''), (''value'', JString ''TODO'')]) [])
   = [Request GET_PROJECT_DETAILS [(''projectId'', Val (JString ''PVT_1''))],
      Request GET_PROJECT_DETAILS [(''projectId'', Val (JString ''PVT_1''))],
      Request UPDATE_PROJECT_ITEM_FIELD
        [(''projectId'', Val (JString ''PVT_1'')), (''itemId'', Val (JString ''PVTI_1'')),
         (''fieldId'', Val (JString ''F_status'')),
         (''value'', Input [(''singleSelectOptionId'', Val (JString ''O_todo''))])]]"
    using updateProjectItem_single_select[OF h', where gh = github_roadmap
        and log = "[]"
        and log' = "[Request GET_PROJECT_DETAILS [(''projectId'', Val (JString ''PVT_1''))]]"
        and fs = roadmap_configuration
        and project = "project_with_fields (details_fields roadmap_configuration)"]
    by (simp add: property_def t' d f l c ascii_toLowerCase_def toLowerChar_def)
  from a b e show ?thesis by simp
qed

text \<open>
  The claim as stated fails for a single-select field that is the twenty-first field of its
  project: the field is not among those fetched, so the call fails although the option
  Done exists, and the error lists no option name.
\<close>

theorem updateProjectItem_twenty_first_field:
  "updateProjectItem github_wide
     (JObject [(''projectId'', JString ''PVT_1''), (''itemId'', JString ''PVTI_1''),
               (''fieldId'', JString ''F21''), (''value'', JString ''Done''),
               (''fieldType'', JString ''SINGLE_SELECT'')]) []
   = (Inr (Text (''Error updating project item: Failed to find single select option: '' @
                 ''Option '' @ quote @ ''Done'' @ quote @
                 '' not found for field. Available options: undefined'')),
      [Request GET_PROJECT_DETAILS [(''projectId'', Val (JString ''PVT_1''))]])"
proof -
  have p: "parse UpdateProjectItemSchema
     (JObject [(''projectId'', JString ''PVT_1''), (''itemId'', JString ''PVTI_1''),
               (''fieldId'', JString ''F21''), (''value'', JString ''Done''),
               (''fieldType'', JString ''SINGLE_SELECT'')])
     = Inr [(''projectId'', JString ''PVT_1''), (''itemId'', JString ''PVTI_1''),
            (''fieldId'', JString ''F21''), (''value'', JString ''Done''),
            (''fieldType'', JString ''SINGLE_SELECT'')]"
    by (simp add: parse_def UpdateProjectItemSchema_def object_issues_def property_def
          field_types_def)
  have d: "project_details github_wide lg
             = Inr (Some (project_with_fields (details_fields wide_configuration)))" for lg
    by (simp add: github_wide_def github_serving_def github_down_def)
  have f: "find_field (Some (project_with_fields (details_fields wide_configuration)))
             (JString ''F21'') = None"
    by (simp add: find_field_def project_with_fields_def details_fields_def
          wide_configuration_def opt_json_def)
  show ?thesis
    by (simp add: updateProjectItem_def p property_def actualFieldType_def formatValue_def
          singleSelectValue_def send_def d f find_option_def option_names_def)
qed

section \<open>The dispatcher: invalid arguments\<close>

lemma object_issues_paths:
  "{k. \<exists>i \<in> set (object_issues shape (JObject kvs)). \<exists>q. path i = Key k # q}
     = set (violated_fields shape kvs)"
proof (intro set_eqI iffI)
  fix k
  assume "k \<in> {k. \<exists>i \<in> set (object_issues shape (JObject kvs)). \<exists>q. path i = Key k # q}"
  then obtain i q where i: "i \<in> set (object_issues shape (JObject kvs))"
    and pq: "path i = Key k # q" by blast
  from i obtain k' t where kt: "(k', t) \<in> set shape"
    and it: "i \<in> set (zissues t [Key k'] (property kvs k'))"
    by (auto simp: object_issues_def)
  from zissues_path[OF it] pq have "k' = k" by auto
  moreover from it have "zissues t [Key k'] (property kvs k') \<noteq> []" by auto
  then have "\<not> accepts t (property kvs k')" by (simp add: zissues_Nil_iff)
  ultimately show "k \<in> set (violated_fields shape kvs)"
    using kt by (force simp: violated_fields_def)
next
  fix k
  assume "k \<in> set (violated_fields shape kvs)"
  then obtain t where kt: "(k, t) \<in> set shape" and na: "\<not> accepts t (property kvs k)"
    by (auto simp: violated_fields_def)
  then have "zissues t [Key k] (property kvs k) \<noteq> []" by (simp add: zissues_Nil_iff)
  then obtain i where it: "i \<in> set (zissues t [Key k] (property kvs k))"
    by (cases "zissues t [Key k] (property kvs k)") auto
  from zissues_path[OF it] obtain q where "path i = Key k # q" by auto
  moreover from kt it have "i \<in> set (object_issues shape (JObject kvs))"
    by (force simp: object_issues_def)
  ultimately show "k \<in> {k. \<exists>i \<in> set (object_issues shape (JObject kvs)). \<exists>q. path i = Key k # q}"
    by blast
qed

text \<open>
  The message of an issue does not depend on the path, that is, on the name of the field:
  it is made of the expected type and the received value.
\<close>

lemma zissues_message_path: "map message (zissues t p v) = map message (zissues t q v)"
proof (induction t arbitrary: p q v)
  case (ZArray t)
  show ?case
  proof (cases v)
    case (JArray xs)
    have "map message (concat (map (\<lambda>(i, x). zissues t (p @ [Index i]) x) (enumerate n xs)))
            = map message (concat (map (\<lambda>(i, x). zissues t (q @ [Index i]) x)
                                     (enumerate n xs)))" for n
    proof (induction xs arbitrary: n)
      case Nil
      then show ?case by simp
    next
      case (Cons x xs)
      then show ?case
        using ZArray.IH[of "p @ [Index n]" x "q @ [Index n]"] by simp
    qed
    then show ?thesis using JArray by simp
  qed (simp_all add: invalid_type_def)
qed (simp_all add: invalid_type_def invalid_enum_value_def split: json.splits)

lemma object_issues_messages:
  "map message (object_issues shape (JObject kvs))
     = concat (map (\<lambda>(k, t). map message (zissues t [] (property kvs k))) shape)"
proof -
  have "map message (concat (map (\<lambda>(k, t). zissues t [Key k] (property kvs k)) sh))
          = concat (map (\<lambda>(k, t). map message (zissues t [] (property kvs k))) sh)" for sh
  proof (induction sh)
    case Nil
    then show ?case by simp
  next
    case (Cons kt sh)
    then show ?case
      using zissues_message_path[of "snd kt" "[Key (fst kt)]" "property kvs (fst kt)" "[]"]
      by (cases kt) simp
  qed
  then show ?thesis by (simp add: object_issues_def)
qed

lemma violated_issues:
  "violated_fields shape kvs \<noteq> [] \<Longrightarrow> object_issues shape (JObject kvs) \<noteq> []"
  using object_issues_paths[of shape kvs] by (cases "object_issues shape (JObject kvs)") auto

lemma handlers_reject:
  assumes "parse shape args = Inl errors"
  shows "shape = GetProjectSchema \<Longrightarrow> getProject gh args log = (Inl (ZodError errors), log)"
    and "shape = CreateProjectSchema \<Longrightarrow> createProject gh args log = (Inl (ZodError errors), log)"
    and "shape = UpdateProjectSchema \<Longrightarrow> updateProject gh args log = (Inl (ZodError errors), log)"
    and "shape = CreateIssueSchema \<Longrightarrow> createIssue gh args log = (Inl (ZodError errors), log)"
    and "shape = AddItemToProjectSchema \<Longrightarrow>
           addItemToProject gh args log = (Inl (ZodError errors), log)"
    and "shape = UpdateProjectItemSchema \<Longrightarrow>
           updateProjectItem gh args log = (Inl (ZodError errors), log)"
    and "shape = CreateProjectFieldSchema \<Longrightarrow>
           createProjectField gh args log = (Inl (ZodError errors), log)"
    and "shape = UpdateItemStatusSchema \<Longrightarrow>
           updateItemStatus gh args log = (Inl (ZodError errors), log)"
    and "shape = GetProjectFieldsSchema \<Longrightarrow>
           getProjectFields gh args log = (Inl (ZodError errors), log)"
    and "shape = GetProjectItemsSchema \<Longrightarrow>
           getProjectItems gh args log = (Inl (ZodError errors), log)"
  using assms
  by (simp_all add: getProject_def createProject_def updateProject_def createIssue_def
        addItemToProject_def updateProjectItem_def createProjectField_def updateItemStatus_def
        getProjectFields_def getProjectItems_def)

lemma tool_schema_cases:
  assumes "tool_schema name = Some shape"
  shows "(name = ''get-project'' \<and> shape = GetProjectSchema) \<or>
         (name = ''create-project'' \<and> shape = CreateProjectSchema) \<or>
         (name = ''update-project'' \<and> shape = UpdateProjectSchema) \<or>
         (name = ''create-issue'' \<and> shape = CreateIssueSchema) \<or>
         (name = ''add-item-to-project'' \<and> shape = AddItemToProjectSchema) \<or>
         (name = ''update-project-item'' \<and> shape = UpdateProjectItemSchema) \<or>
         (name = ''create-project-field'' \<and> shape = CreateProjectFieldSchema) \<or>
         (name = ''update-item-status'' \<and> shape = UpdateItemStatusSchema) \<or>
         (name = ''get-project-fields'' \<and> shape = GetProjectFieldsSchema) \<or>
         (name = ''get-project-items'' \<and> shape = GetProjectItemsSchema)"
  using assms unfolding tool_schema_def by (simp split: if_splits)

lemma callTool_rejects:
  assumes "tool_schema name = Some shape" and "parse shape args = Inl errors"
  shows "callTool gh name args log =
           (Inl (McpError InvalidParams
                   (''Invalid arguments: '' @ join '', '' (map message errors))), log)"
  using tool_schema_cases[OF assms(1)] handlers_reject[OF assms(2), of gh log]
  by (elim disjE conjE) (simp_all add: callTool_def)

text \<open>
  C1, as amended. For every tool that has a schema (every tool but list-projects) and every
  argument object that violates a field of it (a required field is missing, a value has
  the wrong type, an enum value is out of range), the call ends in an InvalidParams fault
  and the log is unchanged: no request is made. The message is Invalid arguments: followed
  by the messages of the validator's issues, joined by commas; the issues are about
  exactly the violated fields, all of them. The messages are made of the type that the
  schema expects and of the value received, not of the name of the field: they are the
  ones the validator gives for the same types and values at the empty path.
\<close>

theorem invalid_arguments_fault:
  assumes "tool_schema name = Some shape"
    and "violated_fields shape kvs \<noteq> []"
  shows "callTool gh name (JObject kvs) log =
           (Inl (McpError InvalidParams
                   (''Invalid arguments: '' @
                    join '', '' (map message (object_issues shape (JObject kvs))))), log) \<and>
         {k. \<exists>i \<in> set (object_issues shape (JObject kvs)). \<exists>q. path i = Key k # q}
           = set (violated_fields shape kvs) \<and>
         map message (object_issues shape (JObject kvs))
           = concat (map (\<lambda>(k, t). map message (zissues t [] (property kvs k))) shape)"
proof -
  have "parse shape (JObject kvs) = Inl (object_issues shape (JObject kvs))"
    using violated_issues[OF assms(2)] by (simp add: parse_Inl)
  from callTool_rejects[OF assms(1) this] object_issues_paths object_issues_messages
  show ?thesis by simp
qed

theorem invalid_arguments_fault_witness:
  "callTool github_down ''create-issue''
     (JObject [(''title'', JString ''Crash on start''), (''body'', JNumber 3)]) []
   = (Inl (McpError InvalidParams
             ''Invalid arguments: Required, Required, Expected string, received number''), [])
   \<and> violated_fields CreateIssueSchema
        [(''title'', JString ''Crash on start''), (''body'', JNumber 3)]
       = [''owner'', ''repo'', ''body'']"
proof -
  have s: "tool_schema ''create-issue'' = Some CreateIssueSchema"
    by (simp add: tool_schema_def)
  have v: "violated_fields CreateIssueSchema
             [(''title'', JString ''Crash on start''), (''body'', JNumber 3)]
           = [''owner'', ''repo'', ''body'']"
    by (simp add: violated_fields_def CreateIssueSchema_def property_def)
  from invalid_arguments_fault[OF s, of "[(''title'', JString ''Crash on start''), (''body'', JNumber 3)]" github_down "[]"] v
  show ?thesis
    by (simp add: object_issues_def CreateIssueSchema_def property_def invalid_type_def)
qed

text \<open>
  The claim as stated fails twice. list-projects does not validate: without an owner it
  sends the query (with an undefined login) and returns a text. And the fault of a
  validated tool does not name the missing field: for get-project without a project id
  the message is Invalid arguments: Required.
\<close>

theorem list_projects_not_validated:
  "callTool github_down ''list-projects'' (JObject []) []
   = (Inr (Text ''Error listing projects: Service unavailable''),
      [Request GET_USER_PROJECTS [(''login'', Val JUndefined)]])
   \<and> callTool github_down ''get-project'' (JObject []) []
     = (Inl (McpError InvalidParams ''Invalid arguments: Required''), [])"
  by (simp add: callTool_def listProjects_def send_def property_def github_down_def
        getProject_def parse_def GetProjectSchema_def object_issues_def invalid_type_def)

text \<open>list-projects never rejects an argument object, and always makes a request.\<close>

lemma listProjects_never_rejects:
  "\<exists>text r. callTool gh ''list-projects'' (JObject kvs) log = (Inr (Text text), log @ [r])"
  by (auto simp add: callTool_def listProjects_def send_def Let_def split: sum.splits prod.splits)

end
